theory Spec2Isabelle
  imports Main "HOL-Library.Word"
begin

section \<open>JavaScript values\<close>

text \<open>
  The relay is TypeScript. Strings of \<^verbatim>\<open>provider-web.ts\<close> are inspected unit by unit
  (\<^verbatim>\<open>trim\<close>, \<^verbatim>\<open>startsWith\<close>, \<^verbatim>\<open>endsWith\<close>, a case-insensitive regular expression), so
  they are lists of UTF-16 code units. Strings of \<^verbatim>\<open>index.ts\<close> (message sids, statuses,
  directions) are only compared for equality and are kept as \<^typ>\<open>string\<close>.
  An optional property (\<^verbatim>\<open>undefined\<close> or \<^verbatim>\<open>null\<close>) is \<^typ>\<open>'a option\<close>.
\<close>

type_synonym jsstring = "16 word list"

definition js :: "string \<Rightarrow> jsstring" where
  "js s = map of_char s"

text \<open>Truthiness of an optional string: absent and the empty string are both falsy.\<close>

definition truthy :: "'a list option \<Rightarrow> bool" where
  "truthy v = (case v of None \<Rightarrow> False | Some s \<Rightarrow> s \<noteq> [])"

text \<open>Truthiness of an optional number: absent and zero are falsy.\<close>

definition truthyNum :: "int option \<Rightarrow> bool" where
  "truthyNum v = (case v of None \<Rightarrow> False | Some n \<Rightarrow> n \<noteq> 0)"

text \<open>Decimal rendering of a number, as a template literal does it for an integer.\<close>

definition digitChar :: "nat \<Rightarrow> char" where
  "digitChar d = ''0123456789'' ! d"

fun showNat :: "nat \<Rightarrow> string" where
  "showNat n =
     (if n < 10 then [digitChar n]
      else showNat (n div 10) @ [digitChar (n mod 10)])"

text \<open>Reading a decimal rendering back, to state that the rendering loses nothing.\<close>

definition digitVal :: "char \<Rightarrow> nat" where
  "digitVal c = of_char c - 48"

definition readNat :: "string \<Rightarrow> nat" where
  "readNat s = foldl (\<lambda>a c. 10 * a + digitVal c) 0 s"

definition showInt :: "int \<Rightarrow> string" where
  "showInt i = (if i < 0 then CHR ''-'' # showNat (nat (- i)) else showNat (nat i))"

text \<open>
  A value that was thrown, or that a promise was rejected with. The code reads a few
  properties of it through optional chaining: \<^verbatim>\<open>err.error.output.statusCode\<close>,
  \<^verbatim>\<open>err.output.statusCode\<close>, \<^verbatim>\<open>err.status\<close>, \<^verbatim>\<open>err.code\<close>. A string primitive has
  none of them. \<open>ErrorInstance\<close> is a value for which \<^verbatim>\<open>instanceof Error\<close> holds, with
  its message; \<open>OtherValue\<close> is any other value, with what \<^verbatim>\<open>String(err)\<close> gives.
\<close>

record err_props =
  error_output_statusCode :: "int option"
  output_statusCode :: "int option"
  err_status :: "int option"
  err_code :: "jsstring option"

datatype thrown =
    ErrorInstance jsstring err_props
  | StringValue jsstring
  | OtherValue jsstring err_props

definition no_props :: err_props where
  "no_props = \<lparr>error_output_statusCode = None, output_statusCode = None,
     err_status = None, err_code = None\<rparr>"

definition new_Error :: "jsstring \<Rightarrow> thrown" where
  "new_Error msg = ErrorInstance msg no_props"

section \<open>The poll transport (index.ts)\<close>

text \<open>
  The fields of Twilio's \<^verbatim>\<open>MessageInstance\<close> that the code reads. \<open>dateCreated\<close> is the
  \<^verbatim>\<open>Date\<close> as milliseconds since the epoch (\<^verbatim>\<open>getTime()\<close>), absent when the property is
  \<^verbatim>\<open>null\<close>; a \<^verbatim>\<open>Date\<close> that is there is taken to be a valid one. \<open>sender\<close> and \<open>recipient\<close>
  are \<^verbatim>\<open>from\<close> and \<^verbatim>\<open>to\<close>.
\<close>

record MessageInstance =
  sid :: string
  direction :: string
  dateCreated :: "int option"
  sender :: "string option"
  recipient :: string
  body :: "string option"
  status :: "string option"
  errorCode :: "int option"
  errorMessage :: "string option"

subsection \<open>monitor\<close>

text \<open>
  What \<^verbatim>\<open>monitor\<close> prints inside its loop: one line per inbound message it has not seen
  before (modelled by the message printed), and one line per failed poll.
\<close>

datatype monitor_line = InboundLine MessageInstance | PollErrorLine thrown

text \<open>
  A \<^verbatim>\<open>Date\<close> built from a time value, by the time value it holds: the constructor clips
  a time outside 8.64e15 milliseconds around the epoch to \<^verbatim>\<open>NaN\<close>, the Invalid Date, which
  is \<open>None\<close> here. \<^verbatim>\<open>Date.now()\<close> is an integer far below 2^53 and the lookback is an
  integer, so whenever the result is in range the arithmetic of the code is exact.
\<close>

definition newDate :: "int \<Rightarrow> int option" where
  "newDate t =
     (if - 8640000000000000 \<le> t \<and> t \<le> 8640000000000000 then Some t else None)"

text \<open>
  The variables the loop of \<^verbatim>\<open>monitor\<close> mutates, and the console. \<open>since\<close> is the time value
  of the \<^verbatim>\<open>Date\<close>, \<open>None\<close> for the Invalid Date.
\<close>

record monitor_state =
  since :: "int option"
  seen :: "string set"
  console :: "monitor_line list"

text \<open>
  \<^verbatim>\<open>
  const updateSince = (date?: Date | null) => {
    if (!date) return;
    if (date.getTime() > since.getTime()) { since = date; }
  };
  \<close>
  A comparison with \<^verbatim>\<open>NaN\<close> is false: an invalid \<^verbatim>\<open>since\<close> is never replaced.
\<close>

definition updateSince :: "int option \<Rightarrow> monitor_state \<Rightarrow> monitor_state" where
  "updateSince date st =
     (case date of
        None \<Rightarrow> st
      | Some d \<Rightarrow>
          (case since st of
             None \<Rightarrow> st
           | Some w \<Rightarrow> if d > w then st\<lparr>since := Some d\<rparr> else st))"

text \<open>The comparator's key: \<^verbatim>\<open>m.dateCreated?.getTime() ?? 0\<close>.\<close>

definition createdMs :: "MessageInstance \<Rightarrow> int" where
  "createdMs m = (case dateCreated m of None \<Rightarrow> 0 | Some t \<Rightarrow> t)"

text \<open>
  The body of the \<^verbatim>\<open>forEach\<close>:
  \<^verbatim>\<open>
  if (seen.has(m.sid)) return;
  seen.add(m.sid);
  console.log(...);
  updateSince(m.dateCreated);
  \<close>
\<close>

definition emitMessage :: "monitor_state \<Rightarrow> MessageInstance \<Rightarrow> monitor_state" where
  "emitMessage st m =
     (if sid m \<in> seen st then st
      else updateSince (dateCreated m)
             (st\<lparr>seen := insert (sid m) (seen st),
                 console := console st @ [InboundLine m]\<rparr>))"

text \<open>
  One iteration of the \<^verbatim>\<open>while\<close> loop, given what \<^verbatim>\<open>client.messages.list\<close> did: it
  rejected (\<open>Inl\<close>, caught and logged) or returned a page of messages (\<open>Inr\<close>). The page is
  filtered to inbound messages, sorted by creation time (\<^verbatim>\<open>Array.prototype.sort\<close> is
  stable, as \<^const>\<open>sort_key\<close> is) and walked in order.
\<close>

definition monitor_iter :: "monitor_state \<Rightarrow> thrown + MessageInstance list \<Rightarrow> monitor_state" where
  "monitor_iter st r =
     (case r of
        Inl err \<Rightarrow> st\<lparr>console := console st @ [PollErrorLine err]\<rparr>
      | Inr messages \<Rightarrow>
          foldl emitMessage st
            (sort_key createdMs (filter (\<lambda>m. direction m = ''inbound'') messages)))"

text \<open>
  The state before the first iteration: \<^verbatim>\<open>since = new Date(Date.now() - lookbackMinutes * 60_000)\<close>
  and an empty \<^verbatim>\<open>seen\<close>. \<open>now\<close> is what \<^verbatim>\<open>Date.now()\<close> returned.
\<close>

definition monitor_init :: "int \<Rightarrow> int \<Rightarrow> monitor_state" where
  "monitor_init now lookbackMinutes =
     \<lparr>since = newDate (now - lookbackMinutes * 60000), seen = {}, console = []\<rparr>"

text \<open>
  The loop runs until a signal clears \<^verbatim>\<open>keepRunning\<close>; \<open>polls\<close> lists what the fetch did
  in each iteration that ran, and the result is the state after them. The sleep of
  \<^verbatim>\<open>intervalSeconds\<close> between two iterations changes none of the variables.
\<close>

definition monitor :: "int \<Rightarrow> int \<Rightarrow> (thrown + MessageInstance list) list \<Rightarrow> monitor_state" where
  "monitor now lookbackMinutes polls = foldl monitor_iter (monitor_init now lookbackMinutes) polls"

text \<open>The messages the loop printed, in order: the accepted entries.\<close>

fun accepted :: "monitor_line list \<Rightarrow> MessageInstance list" where
  "accepted [] = []"
| "accepted (InboundLine m # ls) = m # accepted ls"
| "accepted (PollErrorLine e # ls) = accepted ls"

text \<open>The creation timestamps of the entries that carry one.\<close>

definition timestamps :: "MessageInstance list \<Rightarrow> int list" where
  "timestamps ms = List.map_filter dateCreated ms"

text \<open>
  The invariant of the loop: the watermark is the largest of the initial value and the
  creation timestamps of the entries printed so far.
\<close>

definition watermark_inv :: "int \<Rightarrow> monitor_state \<Rightarrow> bool" where
  "watermark_inv init st =
     (since st = Some (Max (insert init (set (timestamps (accepted (console st)))))))"

text \<open>
  The invariant of the loop for the sids: every printed sid is in \<^verbatim>\<open>seen\<close>, and no sid was
  printed twice.
\<close>

definition dedup_inv :: "monitor_state \<Rightarrow> bool" where
  "dedup_inv st =
     (sid ` set (accepted (console st)) \<subseteq> seen st \<and> distinct (map sid (accepted (console st))))"

subsection \<open>waitForFinalStatus\<close>

definition successTerminalStatuses :: "string set" where
  "successTerminalStatuses = {''delivered'', ''read''}"

definition failureTerminalStatuses :: "string set" where
  "failureTerminalStatuses = {''failed'', ''undelivered'', ''canceled''}"

text \<open>What \<^verbatim>\<open>client.messages(sid).fetch()\<close> did in one iteration.\<close>

datatype fetch_result = FetchRejected thrown | Fetched MessageInstance

text \<open>
  How \<^verbatim>\<open>waitForFinalStatus\<close> ends. \<open>Delivered s\<close>: it printed the delivered line for status
  \<open>s\<close> and returned. \<open>DeliveryFailed s code msg\<close>: it printed the failure line for status
  \<open>s\<close>, with the error code and the error message where they are truthy, and called
  \<^verbatim>\<open>process.exit(1)\<close>. \<open>TimedOut\<close>: the loop ended at the deadline; it printed that the
  message may still be in flight and returned. \<open>FetchThrew\<close>: the fetch rejected, and the
  rejection is the function's.
\<close>

datatype wait_outcome =
    Delivered string
  | DeliveryFailed string "int option" "string option"
  | TimedOut
  | FetchThrew thrown

definition exitCode :: "wait_outcome \<Rightarrow> int option" where
  "exitCode out = (case out of DeliveryFailed s c m \<Rightarrow> Some 1 | _ \<Rightarrow> None)"

definition statusOf :: "MessageInstance \<Rightarrow> string" where
  "statusOf m = (case status m of None \<Rightarrow> ''unknown'' | Some s \<Rightarrow> s)"

definition failureOutcome :: "MessageInstance \<Rightarrow> wait_outcome" where
  "failureOutcome m =
     DeliveryFailed (statusOf m)
       (if truthyNum (errorCode m) then errorCode m else None)
       (if truthy (errorMessage m) then errorMessage m else None)"

text \<open>
  The loop. Time is what \<^verbatim>\<open>Date.now()\<close> returns: \<open>clock\<close> lists the readings of the loop's
  tests in order, \<open>fetches\<close> what each fetch did. The result is the outcome and the number
  of fetches made; \<open>None\<close> says the listed readings or fetches ran out while the loop was
  still going.
  \<^verbatim>\<open>
  while (Date.now() < deadline) {
    const m = await client.messages(sid).fetch();
    const status = m.status ?? 'unknown';
    if (successTerminalStatuses.has(status)) { console.log(...); return; }
    if (failureTerminalStatuses.has(status)) { console.error(...); process.exit(1); }
    await sleep(pollSeconds * 1000);
  }
  console.log('Timed out waiting for final status; message may still be in flight.');
  \<close>
\<close>

fun pollLoop :: "int \<Rightarrow> int list \<Rightarrow> fetch_result list \<Rightarrow> nat \<Rightarrow> (wait_outcome \<times> nat) option" where
  "pollLoop deadline [] fetches n = None"
| "pollLoop deadline (now # clock) fetches n =
     (if now < deadline then
        (case fetches of
           [] \<Rightarrow> None
         | FetchRejected err # rest \<Rightarrow> Some (FetchThrew err, Suc n)
         | Fetched m # rest \<Rightarrow>
             if statusOf m \<in> successTerminalStatuses then Some (Delivered (statusOf m), Suc n)
             else if statusOf m \<in> failureTerminalStatuses then Some (failureOutcome m, Suc n)
             else pollLoop deadline clock rest (Suc n))
      else Some (TimedOut, n))"

text \<open>
  \<^verbatim>\<open>const deadline = Date.now() + timeoutSeconds * 1000;\<close> takes the first reading.
\<close>

definition waitForFinalStatus ::
    "int \<Rightarrow> int \<Rightarrow> int list \<Rightarrow> fetch_result list \<Rightarrow> (wait_outcome \<times> nat) option" where
  "waitForFinalStatus timeoutSeconds pollSeconds clock fetches =
     (case clock of
        [] \<Rightarrow> None
      | t0 # rest \<Rightarrow> pollLoop (t0 + timeoutSeconds * 1000) rest fetches 0)"

text \<open>
  For the claims about the loop: the polls made before the deadline elapsed, and the first
  of them with a terminal status.
\<close>

definition isTerminal :: "MessageInstance \<Rightarrow> bool" where
  "isTerminal m = (statusOf m \<in> successTerminalStatuses \<or> statusOf m \<in> failureTerminalStatuses)"

definition polled :: "int \<Rightarrow> int list \<Rightarrow> MessageInstance list \<Rightarrow> MessageInstance list" where
  "polled deadline clock ms = take (length (takeWhile (\<lambda>t. t < deadline) clock)) ms"

definition firstTerminal :: "MessageInstance list \<Rightarrow> MessageInstance option" where
  "firstTerminal ms = find isTerminal ms"

section \<open>The session transport (provider-web.ts)\<close>

subsection \<open>Strings\<close>

text \<open>
  \<^verbatim>\<open>String.prototype.trim\<close> removes the white space and line terminator code units of
  ECMAScript from both ends.
\<close>

definition isWhiteSpace :: "16 word \<Rightarrow> bool" where
  "isWhiteSpace c =
     (c = 0x9 \<or> c = 0xA \<or> c = 0xB \<or> c = 0xC \<or> c = 0xD \<or> c = 0x20 \<or> c = 0xA0
      \<or> c = 0x1680 \<or> (0x2000 \<le> c \<and> c \<le> 0x200A) \<or> c = 0x2028 \<or> c = 0x2029
      \<or> c = 0x202F \<or> c = 0x205F \<or> c = 0x3000 \<or> c = 0xFEFF)"

definition trim :: "jsstring \<Rightarrow> jsstring" where
  "trim s = rev (dropWhile isWhiteSpace (rev (dropWhile isWhiteSpace s)))"

definition startsWith :: "jsstring \<Rightarrow> jsstring \<Rightarrow> bool" where
  "startsWith s p = (take (length p) s = p)"

definition endsWith :: "jsstring \<Rightarrow> jsstring \<Rightarrow> bool" where
  "endsWith s p = (length p \<le> length s \<and> drop (length s - length p) s = p)"

text \<open>
  The canonicalisation of a case-insensitive regular expression without the unicode
  flag, on the units that can match an ASCII letter: only ASCII letters do.
\<close>

definition lowerAscii :: "16 word \<Rightarrow> 16 word" where
  "lowerAscii c = (if 0x41 \<le> c \<and> c \<le> 0x5A then c + 0x20 else c)"

text \<open>\<^verbatim>\<open>/^https?:\/\//i.test(s)\<close>\<close>

definition isHttpUrl :: "jsstring \<Rightarrow> bool" where
  "isHttpUrl s =
     (map lowerAscii (take 7 s) = js ''http://'' \<or> map lowerAscii (take 8 s) = js ''https://'')"

text \<open>The operator \<^verbatim>\<open>a ?? b\<close> on optional values.\<close>

definition nullish :: "'a option \<Rightarrow> 'a option \<Rightarrow> 'a option" where
  "nullish a b = (case a of None \<Rightarrow> b | Some x \<Rightarrow> Some x)"

subsection \<open>extractText and extractMediaPlaceholder\<close>

text \<open>The parts of the protocol's \<^verbatim>\<open>IMessage\<close> that the code reads.\<close>

record MediaMessage =
  caption :: "jsstring option"
  mimetype :: "jsstring option"

record ExtendedTextMessage =
  ext_text :: "jsstring option"

record IMessage =
  conversation :: "jsstring option"
  extendedTextMessage :: "ExtendedTextMessage option"
  imageMessage :: "MediaMessage option"
  videoMessage :: "MediaMessage option"
  audioMessage :: "MediaMessage option"
  documentMessage :: "MediaMessage option"
  stickerMessage :: "MediaMessage option"

text \<open>
  \<^verbatim>\<open>if (x?.trim()) return x.trim();\<close> the trimmed text when \<open>x\<close> is a string that is not
  blank, nothing otherwise.
\<close>

definition trimmed :: "jsstring option \<Rightarrow> jsstring option" where
  "trimmed x =
     (case x of None \<Rightarrow> None | Some s \<Rightarrow> if trim s \<noteq> [] then Some (trim s) else None)"

text \<open>\<^verbatim>\<open>message.imageMessage?.caption ?? message.videoMessage?.caption\<close>\<close>

definition captionOf :: "IMessage \<Rightarrow> jsstring option" where
  "captionOf m =
     nullish (Option.bind (imageMessage m) caption) (Option.bind (videoMessage m) caption)"

definition extractText :: "IMessage option \<Rightarrow> jsstring option" where
  "extractText message =
     (case message of
        None \<Rightarrow> None
      | Some m \<Rightarrow>
          (case trimmed (conversation m) of
             Some t \<Rightarrow> Some t
           | None \<Rightarrow>
               (case trimmed (Option.bind (extendedTextMessage m) ext_text) of
                  Some t \<Rightarrow> Some t
                | None \<Rightarrow>
                    (case trimmed (captionOf m) of
                       Some t \<Rightarrow> Some t
                     | None \<Rightarrow> None))))"

definition extractMediaPlaceholder :: "IMessage option \<Rightarrow> jsstring option" where
  "extractMediaPlaceholder message =
     (case message of
        None \<Rightarrow> None
      | Some m \<Rightarrow>
          if imageMessage m \<noteq> None then Some (js ''<media:image>'')
          else if videoMessage m \<noteq> None then Some (js ''<media:video>'')
          else if audioMessage m \<noteq> None then Some (js ''<media:audio>'')
          else if documentMessage m \<noteq> None then Some (js ''<media:document>'')
          else if stickerMessage m \<noteq> None then Some (js ''<media:sticker>'')
          else None)"

text \<open>
  The body of an inbound message, as \<^verbatim>\<open>monitorWebInbox\<close> computes it; \<open>None\<close> is the
  \<^verbatim>\<open>continue\<close>.
  \<^verbatim>\<open>
  let body = extractText(msg.message ?? undefined);
  if (!body) {
    body = extractMediaPlaceholder(msg.message ?? undefined);
    if (!body) continue;
  }
  \<close>
\<close>

definition inboundBody :: "IMessage option \<Rightarrow> jsstring option" where
  "inboundBody message =
     (if truthy (extractText message) then extractText message
      else if truthy (extractMediaPlaceholder message) then extractMediaPlaceholder message
      else None)"

subsection \<open>loadWebMedia\<close>

text \<open>
  What \<^verbatim>\<open>fetch\<close> resolved with: \<open>hasBody\<close> is \<^verbatim>\<open>res.body\<close> being there, \<open>arrayBuffer\<close> what
  reading the body gives (the bytes, or a rejection).
\<close>

record Response =
  ok :: bool
  resp_status :: int
  hasBody :: bool
  arrayBuffer :: "thrown + 8 word list"
  contentTypeHeader :: "jsstring option"

record WebMedia =
  buffer :: "8 word list"
  contentType :: "jsstring option"

text \<open>The network and the disk: what \<^verbatim>\<open>fetch(url)\<close> and \<^verbatim>\<open>fs.readFile(path)\<close> do.\<close>

record media_env =
  fetch :: "jsstring \<Rightarrow> thrown + Response"
  readFile :: "jsstring \<Rightarrow> thrown + 8 word list"

definition MAX_WEB_BYTES :: nat where
  "MAX_WEB_BYTES = 16 * 1024 * 1024"

text \<open>
  \<^verbatim>\<open>(n / d).toFixed(1)\<close> for a length \<open>n\<close> and a power of two \<open>d\<close>: the division is exact
  in binary floating point, and \<^verbatim>\<open>toFixed\<close> takes the nearest tenth, the larger one on a
  tie.
\<close>

definition toFixed1 :: "nat \<Rightarrow> nat \<Rightarrow> string" where
  "toFixed1 n d =
     (let tenths = (20 * n + d) div (2 * d)
      in showNat (tenths div 10) @ ''.'' @ showNat (tenths mod 10))"

definition tooLarge :: "nat \<Rightarrow> thrown" where
  "tooLarge len =
     new_Error (js (''Media exceeds '' @ showNat (MAX_WEB_BYTES div (1024 * 1024))
       @ ''MB limit (got '' @ toFixed1 len (1024 * 1024) @ ''MB)''))"

definition httpFailed :: "int \<Rightarrow> thrown" where
  "httpFailed st = new_Error (js (''Failed to fetch media: HTTP '' @ showInt st))"

text \<open>
  \<^verbatim>\<open>if (mediaUrl.startsWith("file://")) mediaUrl = mediaUrl.replace("file://", "");\<close>
  the first occurrence is the prefix.
\<close>

definition stripFileScheme :: "jsstring \<Rightarrow> jsstring" where
  "stripFileScheme mediaUrl =
     (if startsWith mediaUrl (js ''file://'') then drop 7 mediaUrl else mediaUrl)"

definition loadWebMedia :: "media_env \<Rightarrow> jsstring \<Rightarrow> thrown + WebMedia" where
  "loadWebMedia env mediaUrl0 =
     (let mediaUrl = stripFileScheme mediaUrl0 in
      if isHttpUrl mediaUrl then
        (case fetch env mediaUrl of
           Inl err \<Rightarrow> Inl err
         | Inr res \<Rightarrow>
             if \<not> ok res \<or> \<not> hasBody res then Inl (httpFailed (resp_status res))
             else
               (case arrayBuffer res of
                  Inl err \<Rightarrow> Inl err
                | Inr array \<Rightarrow>
                    if length array > MAX_WEB_BYTES then Inl (tooLarge (length array))
                    else Inr \<lparr>buffer = array, contentType = contentTypeHeader res\<rparr>))
      else
        (case readFile env mediaUrl of
           Inl err \<Rightarrow> Inl err
         | Inr data \<Rightarrow>
             if length data > MAX_WEB_BYTES then Inl (tooLarge (length data))
             else Inr \<lparr>buffer = data, contentType = None\<rparr>))"

subsection \<open>The credential directory, webAuthExists and pickProvider\<close>

text \<open>
  \<^verbatim>\<open>WA_WEB_AUTH_DIR\<close> on disk: absent, or a directory. Of its contents the code reads
  \<^verbatim>\<open>creds.json\<close> (in \<^verbatim>\<open>readWebSelfId\<close>), and there the identity \<^verbatim>\<open>me.id\<close>; \<open>creds_json\<close> is
  the parsed file, absent when the file is missing or does not parse.
\<close>

record creds =
  me_id :: "jsstring option"

record cred_dir =
  creds_json :: "creds option"

type_synonym filesystem = "cred_dir option"

text \<open>\<^verbatim>\<open>ensureDir\<close> (called by \<^verbatim>\<open>createWaSocket\<close>) creates the directory when it is missing.\<close>

definition ensureDir :: "filesystem \<Rightarrow> filesystem" where
  "ensureDir fs = (case fs of None \<Rightarrow> Some \<lparr>creds_json = None\<rparr> | Some d \<Rightarrow> Some d)"

text \<open>\<^verbatim>\<open>fs.access(WA_WEB_AUTH_DIR).then(() => true).catch(() => false)\<close>\<close>

definition webAuthExists :: "filesystem \<Rightarrow> bool" where
  "webAuthExists fs = (fs \<noteq> None)"

datatype Provider = Twilio | Web

datatype preference = Explicit Provider | Auto

definition pickProvider :: "preference \<Rightarrow> filesystem \<Rightarrow> Provider" where
  "pickProvider pref fs =
     (case pref of
        Explicit p \<Rightarrow> p
      | Auto \<Rightarrow> if webAuthExists fs then Web else Twilio)"

text \<open>
  \<^verbatim>\<open>readWebSelfId\<close>, the identity lookup: the linked address and the jid, from
  \<^verbatim>\<open>creds.json\<close>. \<open>toE164\<close> is \<^verbatim>\<open>jidToE164\<close> of \<^verbatim>\<open>utils.js\<close>, which is not among the
  sources and is a parameter.
\<close>

definition readWebSelfId ::
    "(jsstring \<Rightarrow> jsstring option) \<Rightarrow> filesystem \<Rightarrow> jsstring option \<times> jsstring option" where
  "readWebSelfId toE164 fs =
     (case fs of
        None \<Rightarrow> (None, None)
      | Some d \<Rightarrow>
          (case creds_json d of
             None \<Rightarrow> (None, None)
           | Some c \<Rightarrow>
               ((case me_id c of
                   None \<Rightarrow> None
                 | Some jid \<Rightarrow> if jid \<noteq> [] then toE164 jid else None),
                me_id c)))"

text \<open>
  The specification's words, for comparison with \<^const>\<open>webAuthExists\<close>: a credential
  snapshot is the session blob with the identity record, persisted in the directory. A
  valid one exists when the directory holds \<^verbatim>\<open>creds.json\<close> with an identity, which is
  when \<^verbatim>\<open>readWebSelfId\<close> finds the logged-in account.
\<close>

definition validCredentialSnapshot :: "filesystem \<Rightarrow> bool" where
  "validCredentialSnapshot fs =
     (case fs of
        None \<Rightarrow> False
      | Some d \<Rightarrow> (case creds_json d of None \<Rightarrow> False | Some c \<Rightarrow> truthy (me_id c)))"

subsection \<open>loginWeb\<close>

text \<open>
  \<^verbatim>\<open>err?.error?.output?.statusCode ?? err?.output?.statusCode\<close>, the close code that
  \<^verbatim>\<open>loginWeb\<close> reads from the value the connection wait rejected with.
\<close>

definition propsOf :: "thrown \<Rightarrow> err_props" where
  "propsOf err =
     (case err of ErrorInstance m p \<Rightarrow> p | StringValue s \<Rightarrow> no_props | OtherValue r p \<Rightarrow> p)"

definition closeCode :: "thrown \<Rightarrow> int option" where
  "closeCode err =
     nullish (error_output_statusCode (propsOf err)) (output_statusCode (propsOf err))"

text \<open>\<^verbatim>\<open>getStatusCode\<close>: \<^verbatim>\<open>err?.output?.statusCode ?? err?.status\<close>\<close>

definition getStatusCode :: "thrown \<Rightarrow> int option" where
  "getStatusCode err = nullish (output_statusCode (propsOf err)) (err_status (propsOf err))"

text \<open>
  \<^verbatim>\<open>formatError\<close>. The property \<^verbatim>\<open>code\<close> is kept as the string a template literal makes of
  it.
\<close>

definition formatError :: "thrown \<Rightarrow> jsstring" where
  "formatError err =
     (case err of
        ErrorInstance m p \<Rightarrow> m
      | StringValue s \<Rightarrow> s
      | OtherValue rendering p \<Rightarrow>
          if truthyNum (getStatusCode err) \<or> truthy (err_code p) then
            js ''status=''
            @ (case getStatusCode err of None \<Rightarrow> js ''unknown'' | Some n \<Rightarrow> js (showInt n))
            @ js '' code=''
            @ (case err_code p of None \<Rightarrow> js ''unknown'' | Some c \<Rightarrow> c)
          else rendering)"

text \<open>
  What \<^verbatim>\<open>loginWeb\<close> does, in order. \<open>CreateSocket printQr\<close> is a call of
  \<^verbatim>\<open>createWaSocket(printQr, verbose)\<close>: the pairing prompt (the QR code) is shown only by
  a socket created with \<open>printQr\<close> true. The sockets are numbered in the order of their
  creation. The lines printed are named by what they say.
\<close>

datatype login_event =
    CreateSocket bool
  | SaidWaiting
  | WaitForConnection nat
  | SaidLinked
  | SaidRestarting
  | CloseSocket nat
  | SaidLinkedAfterRestart
  | CloseLater nat
  | RemoveAuthDir
  | SaidLoggedOut
  | SaidEndedBeforeOpening jsstring

text \<open>
  The result: the events, the credential directory afterwards (the session library's own
  writes of credentials apart), and the value \<^verbatim>\<open>loginWeb\<close> rejected with, if any.
\<close>

record login_result =
  events :: "login_event list"
  files :: filesystem
  thrownBy :: "thrown option"

definition sessionLoggedOut :: thrown where
  "sessionLoggedOut = new_Error (js ''Session logged out; cache cleared. Re-run login.'')"

text \<open>
  \<open>loggedOut\<close> is \<^verbatim>\<open>DisconnectReason.loggedOut\<close> of the session library, a parameter.
  \<open>waitForConnection n\<close> is what waiting for socket \<open>n\<close> gives: \<open>None\<close> when the connection
  opened, the rejection when it closed first. The calls of the session library and of
  the file system (\<^verbatim>\<open>createWaSocket\<close>, \<^verbatim>\<open>fs.rm\<close> with \<^verbatim>\<open>force\<close>) are taken to succeed.
  \<^verbatim>\<open>
  try { await waitForConnection(sock); console.log(... Linked ...); }
  catch (err) {
    const code = err?.error?.output?.statusCode ?? err?.output?.statusCode;
    if (code === 515) {
      ...
      const retry = await createWaSocket(false, verbose);
      try { await waitForConnection(retry); console.log(... Linked after restart ...); return; }
      finally { setTimeout(() => retry.ws?.close(), 500); }
    }
    if (code === DisconnectReason.loggedOut) {
      await fs.rm(WA_WEB_AUTH_DIR, { recursive: true, force: true });
      ...
      throw new Error("Session logged out; cache cleared. Re-run login.");
    }
    const formatted = formatError(err);
    ...
    throw new Error(formatted);
  } finally { setTimeout(() => { ... sock.ws?.close() ... }, 500); }
  \<close>
\<close>

definition loginWeb :: "int \<Rightarrow> (nat \<Rightarrow> thrown option) \<Rightarrow> filesystem \<Rightarrow> login_result" where
  "loginWeb loggedOut waitForConnection fs =
     (let start = [CreateSocket True, SaidWaiting, WaitForConnection 0] in
      case waitForConnection 0 of
        None \<Rightarrow>
          \<lparr>events = start @ [SaidLinked, CloseLater 0], files = ensureDir fs, thrownBy = None\<rparr>
      | Some err \<Rightarrow>
          if closeCode err = Some 515 then
            (case waitForConnection 1 of
               None \<Rightarrow>
                 \<lparr>events = start @ [SaidRestarting, CloseSocket 0, CreateSocket False,
                     WaitForConnection 1, SaidLinkedAfterRestart, CloseLater 1, CloseLater 0],
                  files = ensureDir (ensureDir fs), thrownBy = None\<rparr>
             | Some retryErr \<Rightarrow>
                 \<lparr>events = start @ [SaidRestarting, CloseSocket 0, CreateSocket False,
                     WaitForConnection 1, CloseLater 1, CloseLater 0],
                  files = ensureDir (ensureDir fs), thrownBy = Some retryErr\<rparr>)
          else if closeCode err = Some loggedOut then
            \<lparr>events = start @ [RemoveAuthDir, SaidLoggedOut, CloseLater 0],
             files = None, thrownBy = Some sessionLoggedOut\<rparr>
          else
            \<lparr>events = start @ [SaidEndedBeforeOpening (formatError err), CloseLater 0],
             files = ensureDir fs, thrownBy = Some (new_Error (formatError err))\<rparr>)"

text \<open>The sockets created, by their \<open>printQr\<close> argument.\<close>

fun socketsCreated :: "login_event list \<Rightarrow> bool list" where
  "socketsCreated [] = []"
| "socketsCreated (CreateSocket printQr # es) = printQr # socketsCreated es"
| "socketsCreated (e # es) = socketsCreated es"

subsection \<open>monitorWebInbox\<close>

text \<open>The parts of the protocol's \<^verbatim>\<open>IWebMessageInfo\<close> that the code reads.\<close>

record MessageKey =
  key_id :: "jsstring option"
  fromMe :: "bool option"
  remoteJid :: "jsstring option"
  participant :: "jsstring option"

record WebMessageInfo =
  msg_key :: "MessageKey option"
  msg_message :: "IMessage option"
  pushName :: "jsstring option"
  messageTimestamp :: "int option"

text \<open>
  \<^verbatim>\<open>WebInboundMessage\<close>, what the inbound handler is called with. Its three closures
  (\<^verbatim>\<open>sendComposing\<close>, \<^verbatim>\<open>reply\<close>, \<^verbatim>\<open>sendMedia\<close>) all send to the chat the message came from,
  which \<open>in_chatJid\<close> records.
\<close>

record WebInboundMessage =
  in_id :: "jsstring option"
  in_from :: jsstring
  in_to :: jsstring
  in_body :: jsstring
  in_pushName :: "jsstring option"
  in_timestamp :: "int option"
  in_mediaPath :: "jsstring option"
  in_mediaType :: "jsstring option"
  in_mediaUrl :: "jsstring option"
  in_chatJid :: jsstring

text \<open>
  What the listener takes from outside: \<^verbatim>\<open>jidToE164\<close> (of \<^verbatim>\<open>utils.js\<close>, not among the
  sources), the socket's own jid, and what the media download and the media store do.
\<close>

record inbox_env =
  jidToE164 :: "jsstring \<Rightarrow> jsstring option"
  selfJid :: "jsstring option"
  downloadMediaMessage :: "WebMessageInfo \<Rightarrow> thrown + 8 word list"
  saveMediaBuffer :: "8 word list \<Rightarrow> jsstring option \<Rightarrow> thrown + jsstring"

definition hasMedia :: "IMessage \<Rightarrow> bool" where
  "hasMedia m =
     (imageMessage m \<noteq> None \<or> videoMessage m \<noteq> None \<or> documentMessage m \<noteq> None
      \<or> audioMessage m \<noteq> None \<or> stickerMessage m \<noteq> None)"

definition mimetypeOf :: "IMessage \<Rightarrow> jsstring option" where
  "mimetypeOf m =
     nullish (Option.bind (imageMessage m) mimetype)
       (nullish (Option.bind (videoMessage m) mimetype)
          (nullish (Option.bind (documentMessage m) mimetype)
             (nullish (Option.bind (audioMessage m) mimetype)
                (Option.bind (stickerMessage m) mimetype))))"

definition downloadInboundMedia ::
    "inbox_env \<Rightarrow> WebMessageInfo \<Rightarrow> (8 word list \<times> jsstring option) option" where
  "downloadInboundMedia env msg =
     (case msg_message msg of
        None \<Rightarrow> None
      | Some m \<Rightarrow>
          if \<not> hasMedia m then None
          else
            (case downloadMediaMessage env msg of
               Inl err \<Rightarrow> None
             | Inr buf \<Rightarrow> Some (buf, mimetypeOf m)))"

text \<open>
  The media path and type of the inbound message: the \<^verbatim>\<open>try\<close> around the download and the
  store, whose \<^verbatim>\<open>catch\<close> only logs.
\<close>

definition savedMedia :: "inbox_env \<Rightarrow> WebMessageInfo \<Rightarrow> jsstring option \<times> jsstring option" where
  "savedMedia env msg =
     (case downloadInboundMedia env msg of
        None \<Rightarrow> (None, None)
      | Some (buf, mt) \<Rightarrow>
          (case saveMediaBuffer env buf mt of
             Inl err \<Rightarrow> (None, None)
           | Inr path \<Rightarrow> (Some path, mt)))"

text \<open>\<^verbatim>\<open>selfJid ? jidToE164(selfJid) : null\<close>, and \<^verbatim>\<open>selfE164 ?? "me"\<close>.\<close>

definition selfAddress :: "inbox_env \<Rightarrow> jsstring" where
  "selfAddress env =
     (case (if truthy (selfJid env) then Option.bind (selfJid env) (jidToE164 env) else None) of
        None \<Rightarrow> js ''me''
      | Some a \<Rightarrow> a)"

text \<open>\<^verbatim>\<open>id && seen.has(id)\<close> and \<^verbatim>\<open>if (id) seen.add(id)\<close>.\<close>

definition idSeen :: "jsstring option \<Rightarrow> jsstring set \<Rightarrow> bool" where
  "idSeen i known = (case i of None \<Rightarrow> False | Some s \<Rightarrow> s \<noteq> [] \<and> s \<in> known)"

definition addId :: "jsstring option \<Rightarrow> jsstring set \<Rightarrow> jsstring set" where
  "addId i known = (case i of None \<Rightarrow> known | Some s \<Rightarrow> if s \<noteq> [] then insert s known else known)"

text \<open>
  What the listener does for one message: the read receipt it asks for, the call of the
  inbound handler, and the handler's rejection, which is caught and printed.
\<close>

datatype inbox_event =
    ReadReceipt jsstring jsstring "jsstring option"
  | Dispatch WebInboundMessage
  | HandlerError thrown

text \<open>
  The body of the \<^verbatim>\<open>for\<close> loop over \<^verbatim>\<open>upsert.messages\<close>, from the set \<^verbatim>\<open>seen\<close> to the new set
  and the events. Each \<^verbatim>\<open>continue\<close> is a branch that dispatches nothing. \<open>onMessage\<close> is
  \<^verbatim>\<open>options.onMessage\<close>: \<open>None\<close> when it resolved, its rejection otherwise. The test and
  the update of \<^verbatim>\<open>seen\<close> run without an \<^verbatim>\<open>await\<close> between them.
\<close>

definition handleInbound ::
    "inbox_env \<Rightarrow> (WebInboundMessage \<Rightarrow> thrown option) \<Rightarrow> jsstring set \<Rightarrow> WebMessageInfo
      \<Rightarrow> jsstring set \<times> inbox_event list" where
  "handleInbound env onMessage known msg =
     (let i = Option.bind (msg_key msg) key_id in
      if idSeen i known then (known, [])
      else
        let known' = addId i known in
        if Option.bind (msg_key msg) fromMe = Some True then (known', [])
        else
          (case Option.bind (msg_key msg) remoteJid of
             None \<Rightarrow> (known', [])
           | Some rj \<Rightarrow>
               if rj = [] then (known', [])
               else if endsWith rj (js ''@status'') \<or> endsWith rj (js ''@broadcast'')
               then (known', [])
               else
                 let receipt =
                   (if truthy i
                    then [ReadReceipt rj (case i of None \<Rightarrow> [] | Some s \<Rightarrow> s)
                            (Option.bind (msg_key msg) participant)]
                    else [])
                 in
                 if \<not> truthy (jidToE164 env rj) then (known', receipt)
                 else
                   (case inboundBody (msg_message msg) of
                      None \<Rightarrow> (known', receipt)
                    | Some b \<Rightarrow>
                        let inbound =
                          \<lparr>in_id = i,
                           in_from = (case jidToE164 env rj of None \<Rightarrow> [] | Some a \<Rightarrow> a),
                           in_to = selfAddress env,
                           in_body = b,
                           in_pushName = pushName msg,
                           in_timestamp =
                             (if truthyNum (messageTimestamp msg)
                              then map_option (\<lambda>t. t * 1000) (messageTimestamp msg)
                              else None),
                           in_mediaPath = fst (savedMedia env msg),
                           in_mediaType = snd (savedMedia env msg),
                           in_mediaUrl = None,
                           in_chatJid = rj\<rparr>
                        in (known', receipt @ [Dispatch inbound]
                              @ (case onMessage inbound of
                                   None \<Rightarrow> []
                                 | Some err \<Rightarrow> [HandlerError err])))))"

fun handleMessages ::
    "inbox_env \<Rightarrow> (WebInboundMessage \<Rightarrow> thrown option) \<Rightarrow> jsstring set \<Rightarrow> WebMessageInfo list
      \<Rightarrow> jsstring set \<times> inbox_event list" where
  "handleMessages env onMessage known [] = (known, [])"
| "handleMessages env onMessage known (m # ms) =
     (case handleInbound env onMessage known m of
        (known1, e1) \<Rightarrow>
          (case handleMessages env onMessage known1 ms of
             (known2, e2) \<Rightarrow> (known2, e1 @ e2)))"

text \<open>The event \<^verbatim>\<open>messages.upsert\<close>; the listener returns at once unless its type is notify.\<close>

record Upsert =
  upsert_type :: jsstring
  upsert_messages :: "WebMessageInfo list"

definition onUpsert ::
    "inbox_env \<Rightarrow> (WebInboundMessage \<Rightarrow> thrown option) \<Rightarrow> jsstring set \<Rightarrow> Upsert
      \<Rightarrow> jsstring set \<times> inbox_event list" where
  "onUpsert env onMessage known upsert =
     (if upsert_type upsert \<noteq> js ''notify'' then (known, [])
      else handleMessages env onMessage known (upsert_messages upsert))"

fun handleUpserts ::
    "inbox_env \<Rightarrow> (WebInboundMessage \<Rightarrow> thrown option) \<Rightarrow> jsstring set \<Rightarrow> Upsert list
      \<Rightarrow> jsstring set \<times> inbox_event list" where
  "handleUpserts env onMessage known [] = (known, [])"
| "handleUpserts env onMessage known (u # us) =
     (case onUpsert env onMessage known u of
        (known1, e1) \<Rightarrow>
          (case handleUpserts env onMessage known1 us of
             (known2, e2) \<Rightarrow> (known2, e1 @ e2)))"

text \<open>
  The listener of one transport instance, from \<^verbatim>\<open>const seen = new Set<string>()\<close> on, over
  the upsert events it receives: the events it produces.
\<close>

definition monitorWebInbox ::
    "inbox_env \<Rightarrow> (WebInboundMessage \<Rightarrow> thrown option) \<Rightarrow> Upsert list \<Rightarrow> inbox_event list" where
  "monitorWebInbox env onMessage upserts = snd (handleUpserts env onMessage {} upserts)"

text \<open>The messages the inbound handler was called with, and the ids they carry.\<close>

fun dispatched :: "inbox_event list \<Rightarrow> WebInboundMessage list" where
  "dispatched [] = []"
| "dispatched (Dispatch w # es) = w # dispatched es"
| "dispatched (e # es) = dispatched es"

definition dispatchedIds :: "inbox_event list \<Rightarrow> jsstring list" where
  "dispatchedIds es = List.map_filter in_id (dispatched es)"

text \<open>
  The ids among them that are truthy, the ones the set \<^verbatim>\<open>seen\<close> records.
\<close>

definition truthyIds :: "inbox_event list \<Rightarrow> jsstring list" where
  "truthyIds es = filter (\<lambda>i. i \<noteq> []) (dispatchedIds es)"

text \<open>
  The tests of the loop body other than the one on \<^verbatim>\<open>seen\<close>: the message is not sent by
  the account itself, has a chat jid that is not a status or broadcast one and for which
  \<^verbatim>\<open>jidToE164\<close> gives an address, and has a body.
\<close>

definition deliverable :: "inbox_env \<Rightarrow> WebMessageInfo \<Rightarrow> bool" where
  "deliverable env msg =
     (Option.bind (msg_key msg) fromMe \<noteq> Some True
      \<and> truthy (Option.bind (msg_key msg) remoteJid)
      \<and> (case Option.bind (msg_key msg) remoteJid of
            None \<Rightarrow> False
          | Some rj \<Rightarrow>
              \<not> endsWith rj (js ''@status'') \<and> \<not> endsWith rj (js ''@broadcast'')
              \<and> truthy (jidToE164 env rj))
      \<and> inboundBody (msg_message msg) \<noteq> None)"

subsection \<open>monitorWebProvider\<close>

text \<open>
  What the reply resolver returns, and the context it is called with. The resolver is a
  parameter of \<^verbatim>\<open>monitorWebProvider\<close>.
\<close>

record ReplyResult =
  reply_text :: "jsstring option"
  reply_mediaUrl :: "jsstring option"

record MsgContext =
  ctx_Body :: jsstring
  ctx_From :: jsstring
  ctx_To :: jsstring
  ctx_MessageSid :: "jsstring option"
  ctx_MediaPath :: "jsstring option"
  ctx_MediaUrl :: "jsstring option"
  ctx_MediaType :: "jsstring option"

definition contextOf :: "WebInboundMessage \<Rightarrow> MsgContext" where
  "contextOf msg =
     \<lparr>ctx_Body = in_body msg, ctx_From = in_from msg, ctx_To = in_to msg,
      ctx_MessageSid = in_id msg, ctx_MediaPath = in_mediaPath msg,
      ctx_MediaUrl = in_mediaUrl msg, ctx_MediaType = in_mediaType msg\<rparr>"

text \<open>
  What is sent to a chat: a text (\<^verbatim>\<open>msg.reply(text)\<close>) or an image with an optional caption
  and mime type (\<^verbatim>\<open>msg.sendMedia(payload)\<close>). Both end in \<^verbatim>\<open>sock.sendMessage(chatJid, ...)\<close>.
\<close>

datatype content =
    TextContent jsstring
  | ImageContent "8 word list" "jsstring option" "jsstring option"

text \<open>
  What the handler takes from outside: the reply resolver (it returns a result, returns
  nothing, or rejects), the network and disk of \<^verbatim>\<open>loadWebMedia\<close>, and the socket's send
  (\<open>None\<close> when it resolved, its rejection otherwise).
\<close>

record reply_env =
  replyResolver :: "MsgContext \<Rightarrow> thrown + ReplyResult option"
  network :: media_env
  sendMessage :: "jsstring \<Rightarrow> content \<Rightarrow> thrown option"

text \<open>
  What the handler does, in order: the sends that resolved and those that were rejected,
  and the lines it prints, named by what they say.
\<close>

datatype reply_event =
    PrintedInbound
  | SkippedNoReply
  | Sent jsstring content
  | SendRejected jsstring content thrown
  | SaidMediaSent
  | SaidMediaFailed thrown
  | SaidTextFallback
  | SaidAutoReplied
  | SaidReplyFailed thrown

text \<open>
  \<^verbatim>\<open>new Date(msg.timestamp).toISOString()\<close> throws a \<^verbatim>\<open>RangeError\<close> for a time stamp outside
  the range of \<^verbatim>\<open>Date\<close>; a falsy time stamp is replaced by the current time.
\<close>

definition validDate :: "int option \<Rightarrow> bool" where
  "validDate ts =
     (case ts of
        None \<Rightarrow> True
      | Some t \<Rightarrow> t = 0 \<or> (- 8640000000000000 \<le> t \<and> t \<le> 8640000000000000))"

definition invalidTime :: thrown where
  "invalidTime = new_Error (js ''Invalid time value'')"

text \<open>\<^verbatim>\<open>replyResult.text || undefined\<close>, and the same for the media URL.\<close>

definition orUndefined :: "jsstring option \<Rightarrow> jsstring option" where
  "orUndefined v = (if truthy v then v else None)"

text \<open>
  The inner \<^verbatim>\<open>catch\<close>, entered when \<^verbatim>\<open>loadWebMedia\<close> or \<^verbatim>\<open>msg.sendMedia\<close> rejected with
  \<open>err\<close>: the failure is printed, and the text, if there is one, is sent alone. When that
  send is rejected too, the outer \<^verbatim>\<open>catch\<close> prints its rejection. Otherwise the code after
  the inner \<^verbatim>\<open>try\<close> prints the line of a reply.
\<close>

definition mediaFailed ::
    "reply_env \<Rightarrow> WebInboundMessage \<Rightarrow> ReplyResult \<Rightarrow> thrown \<Rightarrow> reply_event list" where
  "mediaFailed env msg r err =
     SaidMediaFailed err #
     (case orUndefined (reply_text r) of
        None \<Rightarrow> [SaidAutoReplied]
      | Some t \<Rightarrow>
          (case sendMessage env (in_chatJid msg) (TextContent t) of
             None \<Rightarrow> [Sent (in_chatJid msg) (TextContent t), SaidTextFallback, SaidAutoReplied]
           | Some err2 \<Rightarrow>
               [SendRejected (in_chatJid msg) (TextContent t) err2, SaidReplyFailed err2]))"

text \<open>The image payload of a media reply.\<close>

definition mediaPayload :: "ReplyResult \<Rightarrow> WebMedia \<Rightarrow> content" where
  "mediaPayload r media =
     ImageContent (buffer media) (orUndefined (reply_text r)) (contentType media)"

text \<open>The outer \<^verbatim>\<open>try\<close> of the handler, for a result with a text or a media URL.\<close>

definition sendReply :: "reply_env \<Rightarrow> WebInboundMessage \<Rightarrow> ReplyResult \<Rightarrow> reply_event list" where
  "sendReply env msg r =
     (case orUndefined (reply_mediaUrl r) of
        Some url \<Rightarrow>
          (case loadWebMedia (network env) url of
             Inl err \<Rightarrow> mediaFailed env msg r err
           | Inr media \<Rightarrow>
               (case sendMessage env (in_chatJid msg) (mediaPayload r media) of
                  Some err \<Rightarrow>
                    SendRejected (in_chatJid msg) (mediaPayload r media) err
                      # mediaFailed env msg r err
                | None \<Rightarrow>
                    [Sent (in_chatJid msg) (mediaPayload r media), SaidMediaSent,
                     SaidAutoReplied]))
      | None \<Rightarrow>
          (let t = (case reply_text r of None \<Rightarrow> [] | Some t \<Rightarrow> t) in
           case sendMessage env (in_chatJid msg) (TextContent t) of
             Some err \<Rightarrow> [SendRejected (in_chatJid msg) (TextContent t) err, SaidReplyFailed err]
           | None \<Rightarrow> [Sent (in_chatJid msg) (TextContent t), SaidAutoReplied]))"

text \<open>
  The inbound handler \<^verbatim>\<open>onMessage\<close> that \<^verbatim>\<open>monitorWebProvider\<close> gives to the listener: its
  events, and the value it rejected with, if any.
\<close>

definition onMessage :: "reply_env \<Rightarrow> WebInboundMessage \<Rightarrow> reply_event list \<times> thrown option" where
  "onMessage env msg =
     (if \<not> validDate (in_timestamp msg) then ([], Some invalidTime)
      else
        (case replyResolver env (contextOf msg) of
           Inl err \<Rightarrow> ([PrintedInbound], Some err)
         | Inr None \<Rightarrow> ([PrintedInbound, SkippedNoReply], None)
         | Inr (Some r) \<Rightarrow>
             if \<not> truthy (reply_text r) \<and> \<not> truthy (reply_mediaUrl r)
             then ([PrintedInbound, SkippedNoReply], None)
             else (PrintedInbound # sendReply env msg r, None)))"

text \<open>
  For the claims about the handler: the media of the reply fails with \<open>err\<close> when
  \<^verbatim>\<open>loadWebMedia\<close> rejects with it, or when the media loads and sending it rejects with it.
\<close>

definition mediaFails :: "reply_env \<Rightarrow> WebInboundMessage \<Rightarrow> ReplyResult \<Rightarrow> thrown \<Rightarrow> bool" where
  "mediaFails env msg r err =
     (case reply_mediaUrl r of
        None \<Rightarrow> False
      | Some url \<Rightarrow>
          (case loadWebMedia (network env) url of
             Inl e \<Rightarrow> e = err
           | Inr media \<Rightarrow>
               sendMessage env (in_chatJid msg) (mediaPayload r media) = Some err))"

text \<open>The texts the handler sent or tried to send, and everything a send delivered.\<close>

fun textReplies :: "reply_event list \<Rightarrow> (jsstring \<times> jsstring) list" where
  "textReplies [] = []"
| "textReplies (Sent jid (TextContent t) # es) = (jid, t) # textReplies es"
| "textReplies (SendRejected jid (TextContent t) err # es) = (jid, t) # textReplies es"
| "textReplies (e # es) = textReplies es"

fun delivered :: "reply_event list \<Rightarrow> (jsstring \<times> content) list" where
  "delivered [] = []"
| "delivered (Sent jid c # es) = (jid, c) # delivered es"
| "delivered (e # es) = delivered es"

section \<open>Example inputs\<close>

text \<open>An outbound message as the status poll returns it, with the given status.\<close>

definition msg_with_status :: "string \<Rightarrow> MessageInstance" where
  "msg_with_status s = \<lparr>sid = ''SM123'', direction = ''outbound-api'', dateCreated = None,
     sender = None, recipient = ''whatsapp:+15551234567'', body = Some ''hi'',
     status = Some s, errorCode = None, errorMessage = None\<rparr>"

text \<open>The same message, failed with Twilio's error 30008.\<close>

definition failed_msg :: MessageInstance where
  "failed_msg = (msg_with_status ''failed'')
     \<lparr>errorCode := Some 30008, errorMessage := Some ''Unknown error''\<rparr>"

text \<open>An inbound message as the list call returns it.\<close>

definition inbound_msg :: "string \<Rightarrow> int option \<Rightarrow> MessageInstance" where
  "inbound_msg s created = \<lparr>sid = s, direction = ''inbound'', dateCreated = created,
     sender = Some ''whatsapp:+15551234567'', recipient = ''whatsapp:+15550000000'',
     body = Some ''hi'', status = Some ''received'', errorCode = None, errorMessage = None\<rparr>"

text \<open>
  A first page with an entry created before the lookback window, and three polls: an
  entry, a failed fetch, and a page with an older entry and the first one again.
\<close>

definition olderPage :: "(thrown + MessageInstance list) list" where
  "olderPage = [Inr [inbound_msg ''SM1'' (Some 1699999000000)]]"

definition threePolls :: "(thrown + MessageInstance list) list" where
  "threePolls =
     [Inr [inbound_msg ''SM1'' (Some 1699999900000)],
      Inl (new_Error (js ''ETIMEDOUT'')),
      Inr [inbound_msg ''SM2'' (Some 1699999800000), inbound_msg ''SM1'' (Some 1699999900000)]]"

text \<open>A protocol message with no content, to be filled in.\<close>

definition empty_message :: IMessage where
  "empty_message = \<lparr>conversation = None, extendedTextMessage = None, imageMessage = None,
     videoMessage = None, audioMessage = None, documentMessage = None,
     stickerMessage = None\<rparr>"

text \<open>
  A payload of a given length, a network that answers every fetch with one response and
  a disk that holds one file, and an image response with a body of a given length.
\<close>

definition zeros :: "nat \<Rightarrow> 8 word list" where
  "zeros n = replicate n 0"

definition serving :: "Response \<Rightarrow> 8 word list \<Rightarrow> media_env" where
  "serving res file = \<lparr>fetch = (\<lambda>url. Inr res), readFile = (\<lambda>path. Inr file)\<rparr>"

definition png_response :: "bool \<Rightarrow> int \<Rightarrow> nat \<Rightarrow> Response" where
  "png_response success st n = \<lparr>ok = success, resp_status = st, hasBody = True,
     arrayBuffer = Inr (zeros n), contentTypeHeader = Some (js ''image/png'')\<rparr>"

text \<open>
  A close as the connection wait rejects with it: the \<^verbatim>\<open>lastDisconnect\<close> object, whose
  error carries the status code. Then two connection waits: both sockets close, or the
  first closes and the second opens. Then a credential directory after pairing, and an
  empty one.
\<close>

definition closedWith :: "int \<Rightarrow> thrown" where
  "closedWith code = OtherValue (js ''[object Object]'')
     (no_props\<lparr>error_output_statusCode := Some code\<rparr>)"

definition closing :: "int \<Rightarrow> int \<Rightarrow> nat \<Rightarrow> thrown option" where
  "closing first second n = (if n = 0 then Some (closedWith first) else Some (closedWith second))"

definition closingThenOpen :: "int \<Rightarrow> nat \<Rightarrow> thrown option" where
  "closingThenOpen first n = (if n = 0 then Some (closedWith first) else None)"

definition linkedDir :: filesystem where
  "linkedDir = Some \<lparr>creds_json = Some \<lparr>me_id = Some (js ''15551234567:1@s.whatsapp.net'')\<rparr>\<rparr>"

definition emptyDir :: filesystem where
  "emptyDir = Some \<lparr>creds_json = None\<rparr>"

text \<open>
  A direct chat, a listener environment that knows its address and has no media, a text
  message of that chat with a given id, a notify upsert, and a handler that resolves.
\<close>

definition directChat :: jsstring where
  "directChat = js ''15551234567@s.whatsapp.net''"

definition exampleInbox :: inbox_env where
  "exampleInbox =
     \<lparr>jidToE164 = (\<lambda>jid. if jid = directChat then Some (js ''+15551234567'') else None),
      selfJid = None,
      downloadMediaMessage = (\<lambda>m. Inl (StringValue [])),
      saveMediaBuffer = (\<lambda>b t. Inl (StringValue []))\<rparr>"

definition textMessage :: "jsstring option \<Rightarrow> WebMessageInfo" where
  "textMessage i =
     \<lparr>msg_key = Some \<lparr>key_id = i, fromMe = Some False, remoteJid = Some directChat,
        participant = None\<rparr>,
      msg_message = Some (empty_message\<lparr>conversation := Some (js ''hi'')\<rparr>),
      pushName = None, messageTimestamp = Some 1700000000\<rparr>"

definition notify :: "WebMessageInfo list \<Rightarrow> Upsert" where
  "notify ms = \<lparr>upsert_type = js ''notify'', upsert_messages = ms\<rparr>"

definition resolves :: "WebInboundMessage \<Rightarrow> thrown option" where
  "resolves w = None"

text \<open>
  A reply with a media URL and a given text, a network and disk on which every load fails,
  a handler environment whose resolver returns a given reply and whose socket accepts
  every send, and an inbound message of the direct chat.
\<close>

definition mediaReply :: "jsstring option \<Rightarrow> ReplyResult" where
  "mediaReply t = \<lparr>reply_text = t, reply_mediaUrl = Some (js ''https://x/y.png'')\<rparr>"

definition offline :: media_env where
  "offline = \<lparr>fetch = (\<lambda>url. Inl (new_Error (js ''fetch failed''))),
     readFile = (\<lambda>path. Inl (new_Error (js ''ENOENT'')))\<rparr>"

definition replying :: "ReplyResult \<Rightarrow> reply_env" where
  "replying r = \<lparr>replyResolver = (\<lambda>ctx. Inr (Some r)), network = offline,
     sendMessage = (\<lambda>jid c. None)\<rparr>"

definition inboundHi :: WebInboundMessage where
  "inboundHi = \<lparr>in_id = Some (js ''3EB0A''), in_from = js ''+15551234567'', in_to = js ''me'',
     in_body = js ''hi'', in_pushName = None, in_timestamp = Some 1700000000000,
     in_mediaPath = None, in_mediaType = None, in_mediaUrl = None, in_chatJid = directChat\<rparr>"

section \<open>Theorems\<close>

declare showNat.simps [simp del]

subsection \<open>Delivery status (waitForFinalStatus)\<close>

lemma truthy_Some [simp]: "truthy (Some s) = (s \<noteq> [])"
  by (simp add: truthy_def)

lemma pollLoop_fetched:
  "pollLoop deadline clock (map Fetched ms) n =
     (case firstTerminal (polled deadline clock ms) of
        Some m \<Rightarrow>
          Some (if statusOf m \<in> successTerminalStatuses then Delivered (statusOf m)
                else failureOutcome m,
                n + Suc (length (takeWhile (\<lambda>x. \<not> isTerminal x) ms)))
      | None \<Rightarrow>
          if length (takeWhile (\<lambda>t. t < deadline) clock) < length clock
             \<and> length (takeWhile (\<lambda>t. t < deadline) clock) \<le> length ms
          then Some (TimedOut, n + length (takeWhile (\<lambda>t. t < deadline) clock))
          else None)"
proof (induction clock arbitrary: ms n)
  case Nil
  then show ?case by (simp add: polled_def firstTerminal_def)
next
  case (Cons now clock)
  show ?case
  proof (cases "now < deadline")
    case False
    then show ?thesis by (simp add: polled_def firstTerminal_def)
  next
    case early: True
    show ?thesis
    proof (cases ms)
      case Nil
      then show ?thesis using early by (simp add: polled_def firstTerminal_def)
    next
      case ms: (Cons m rest)
      show ?thesis
      proof (cases "isTerminal m")
        case True
        then show ?thesis using early ms
          by (auto simp add: polled_def firstTerminal_def isTerminal_def)
      next
        case False
        then have ns: "statusOf m \<notin> successTerminalStatuses"
            "statusOf m \<notin> failureTerminalStatuses"
          by (auto simp add: isTerminal_def)
        show ?thesis using early ms False ns Cons.IH [of rest "Suc n"]
          by (simp add: polled_def firstTerminal_def split: option.splits)
      qed
    qed
  qed
qed

lemma terminal_sets_disjoint:
  "s \<in> successTerminalStatuses \<Longrightarrow> s \<notin> failureTerminalStatuses"
  by (auto simp add: successTerminalStatuses_def failureTerminalStatuses_def)

lemma firstTerminal_isTerminal: "firstTerminal ms = Some m \<Longrightarrow> isTerminal m"
  by (auto simp add: firstTerminal_def find_Some_iff)

text \<open>
  C3. Let the polls made before the deadline elapsed be the fetches whose loop test read a
  time before the deadline. \<^verbatim>\<open>waitForFinalStatus\<close> reports delivery for status \<open>s\<close> (after
  \<open>n\<close> fetches) exactly when the first terminal status among those polls is \<open>s\<close> and
  is one of delivered and read; it prints the failure with the status, the error code and
  the error message and exits with code 1 exactly when that first terminal status is one
  of failed, undelivered and canceled; and when a loop test reads a time at or past the
  deadline and no poll before it returned a terminal status, it returns with the timeout
  message and no exit code, raising nothing. This holds for every timeout, so for a
  positive one.
\<close>

theorem waitForFinalStatus_reports:
  "(waitForFinalStatus timeoutSeconds pollSeconds (t0 # clock) (map Fetched ms)
        = Some (Delivered s, n)
      \<longleftrightarrow> (\<exists>m. firstTerminal (polled (t0 + timeoutSeconds * 1000) clock ms) = Some m
             \<and> statusOf m \<in> successTerminalStatuses \<and> s = statusOf m
             \<and> n = Suc (length (takeWhile (\<lambda>x. \<not> isTerminal x) ms))))
   \<and> ((\<exists>out. waitForFinalStatus timeoutSeconds pollSeconds (t0 # clock) (map Fetched ms)
              = Some (out, n) \<and> exitCode out = Some 1 \<and> out = DeliveryFailed s c e)
      \<longleftrightarrow> (\<exists>m. firstTerminal (polled (t0 + timeoutSeconds * 1000) clock ms) = Some m
             \<and> statusOf m \<in> failureTerminalStatuses \<and> s = statusOf m
             \<and> c = (if truthyNum (errorCode m) then errorCode m else None)
             \<and> e = (if truthy (errorMessage m) then errorMessage m else None)
             \<and> n = Suc (length (takeWhile (\<lambda>x. \<not> isTerminal x) ms))))
   \<and> (firstTerminal (polled (t0 + timeoutSeconds * 1000) clock ms) = None
        \<and> length (takeWhile (\<lambda>t. t < t0 + timeoutSeconds * 1000) clock) < length clock
        \<and> length (takeWhile (\<lambda>t. t < t0 + timeoutSeconds * 1000) clock) \<le> length ms
      \<longrightarrow> waitForFinalStatus timeoutSeconds pollSeconds (t0 # clock) (map Fetched ms)
            = Some (TimedOut, length (takeWhile (\<lambda>t. t < t0 + timeoutSeconds * 1000) clock))
          \<and> exitCode TimedOut = None)"
proof -
  let ?d = "t0 + timeoutSeconds * 1000"
  have run: "waitForFinalStatus timeoutSeconds pollSeconds (t0 # clock) (map Fetched ms)
      = pollLoop ?d clock (map Fetched ms) 0"
    by (simp add: waitForFinalStatus_def)
  show ?thesis
  proof (cases "firstTerminal (polled ?d clock ms)")
    case None
    then show ?thesis
      unfolding run pollLoop_fetched by (simp add: exitCode_def)
  next
    case (Some m)
    then have "isTerminal m" by (rule firstTerminal_isTerminal)
    then show ?thesis
      unfolding run pollLoop_fetched using Some terminal_sets_disjoint [of "statusOf m"]
      by (auto simp add: exitCode_def failureOutcome_def isTerminal_def)
  qed
qed

text \<open>
  The scenario of the specification: queued, sent, delivered gives success after the third
  poll; with a deadline that elapses after two polls the same fetches give the timeout;
  and queued, failed gives the failure with its error code and message.
\<close>

theorem waitForFinalStatus_reports_witness:
  "waitForFinalStatus 20 2 [0, 0, 2000, 4000]
       (map Fetched [msg_with_status ''queued'', msg_with_status ''sent'', msg_with_status ''delivered''])
     = Some (Delivered ''delivered'', 3)
   \<and> waitForFinalStatus 4 2 [0, 0, 2000, 4000]
       (map Fetched [msg_with_status ''queued'', msg_with_status ''sent'', msg_with_status ''delivered''])
     = Some (TimedOut, 2)
   \<and> waitForFinalStatus 20 2 [0, 0, 2000, 4000]
       (map Fetched [msg_with_status ''queued'', failed_msg, msg_with_status ''delivered''])
     = Some (DeliveryFailed ''failed'' (Some 30008) (Some ''Unknown error''), 2)"
  using waitForFinalStatus_reports [of 20 2 0 "[0, 2000, 4000]"
      "[msg_with_status ''queued'', msg_with_status ''sent'', msg_with_status ''delivered'']"
      "''delivered''" 3 None None]
    waitForFinalStatus_reports [of 4 2 0 "[0, 2000, 4000]"
      "[msg_with_status ''queued'', msg_with_status ''sent'', msg_with_status ''delivered'']"
      "''delivered''" 3 None None]
    waitForFinalStatus_reports [of 20 2 0 "[0, 2000, 4000]"
      "[msg_with_status ''queued'', failed_msg, msg_with_status ''delivered'']"
      "''failed''" 2 "Some 30008" "Some ''Unknown error''"]
  by (simp add: polled_def firstTerminal_def isTerminal_def statusOf_def msg_with_status_def
      failed_msg_def successTerminalStatuses_def failureTerminalStatuses_def truthyNum_def
      exitCode_def)

subsection \<open>The watermark of the poll loop\<close>

lemma accepted_append: "accepted (xs @ ys) = accepted xs @ accepted ys"
  by (induction xs rule: accepted.induct) simp_all

lemma timestamps_snoc:
  "timestamps (ms @ [m]) = timestamps ms @ (case dateCreated m of None \<Rightarrow> [] | Some t \<Rightarrow> [t])"
  by (simp add: timestamps_def List.map_filter_def split: option.splits)

lemma Max_insert_snoc:
  "Max (insert init (set (xs @ [t]))) = max t (Max (insert init (set xs)))"
proof -
  have "insert init (set (xs @ [t])) = insert t (insert init (set xs))" by auto
  then show ?thesis by simp
qed

lemma emitMessage_watermark:
  assumes "watermark_inv init st"
  shows "watermark_inv init (emitMessage st m)"
proof (cases "sid m \<in> seen st")
  case True
  then show ?thesis using assms by (simp add: emitMessage_def)
next
  case new: False
  show ?thesis
  proof (cases "dateCreated m")
    case None
    then show ?thesis using assms new
      by (simp add: emitMessage_def updateSince_def watermark_inv_def accepted_append
          timestamps_snoc)
  next
    case (Some t)
    define M where "M = Max (insert init (set (timestamps (accepted (console st)))))"
    have w: "since st = Some M"
      using assms by (simp only: watermark_inv_def M_def)
    have c: "console (emitMessage st m) = console st @ [InboundLine m]"
      using new Some by (simp add: emitMessage_def updateSince_def split: option.splits)
    have s: "since (emitMessage st m) = Some (max t M)"
      using new Some w by (simp add: emitMessage_def updateSince_def max_def)
    have "Max (insert init (set (timestamps (accepted (console st)) @ [t]))) = max t M"
      unfolding M_def by (rule Max_insert_snoc)
    then have "Max (insert init (set (timestamps (accepted (console (emitMessage st m))))))
        = max t M"
      by (simp only: c accepted_append timestamps_snoc accepted.simps Some option.case
          append_Nil2)
    then show ?thesis by (simp only: watermark_inv_def s)
  qed
qed

lemma foldl_emitMessage_watermark:
  "watermark_inv init st \<Longrightarrow> watermark_inv init (foldl emitMessage st ms)"
  by (induction ms arbitrary: st) (simp_all add: emitMessage_watermark)

lemma monitor_iter_watermark:
  "watermark_inv init st \<Longrightarrow> watermark_inv init (monitor_iter st r)"
  unfolding monitor_iter_def
  by (cases r) (simp_all add: foldl_emitMessage_watermark,
      simp add: watermark_inv_def accepted_append)

lemma foldl_monitor_iter_watermark:
  "watermark_inv init st \<Longrightarrow> watermark_inv init (foldl monitor_iter st polls)"
  by (induction polls arbitrary: st) (simp_all add: monitor_iter_watermark)

lemma emitMessage_since_mono:
  "since st = Some w \<Longrightarrow> \<exists>w'. since (emitMessage st m) = Some w' \<and> w \<le> w'"
  by (simp add: emitMessage_def updateSince_def split: option.splits)

lemma foldl_emitMessage_since_mono:
  "since st = Some w \<Longrightarrow> \<exists>w'. since (foldl emitMessage st ms) = Some w' \<and> w \<le> w'"
proof (induction ms arbitrary: st w)
  case Nil
  then show ?case by simp
next
  case (Cons m ms)
  obtain w1 where w1: "since (emitMessage st m) = Some w1" "w \<le> w1"
    using emitMessage_since_mono [OF Cons.prems] by blast
  obtain w2 where "since (foldl emitMessage (emitMessage st m) ms) = Some w2" "w1 \<le> w2"
    using Cons.IH [OF w1(1)] by blast
  then show ?case using w1 by auto
qed

lemma monitor_iter_since_mono:
  "since st = Some w \<Longrightarrow> \<exists>w'. since (monitor_iter st r) = Some w' \<and> w \<le> w'"
  by (cases r) (simp_all add: monitor_iter_def foldl_emitMessage_since_mono)

lemma foldl_monitor_iter_since_mono:
  "since st = Some w \<Longrightarrow> \<exists>w'. since (foldl monitor_iter st polls) = Some w' \<and> w \<le> w'"
proof (induction polls arbitrary: st w)
  case Nil
  then show ?case by simp
next
  case (Cons r rs)
  obtain w1 where w1: "since (monitor_iter st r) = Some w1" "w \<le> w1"
    using monitor_iter_since_mono [OF Cons.prems] by blast
  obtain w2 where "since (foldl monitor_iter (monitor_iter st r) rs) = Some w2" "w1 \<le> w2"
    using Cons.IH [OF w1(1)] by blast
  then show ?case using w1 by auto
qed

text \<open>
  C2, as the code has it. A watermark that is a valid date never decreases in an
  iteration. When the initial lookback value \<^verbatim>\<open>Date.now() - lookbackMinutes * 60_000\<close> is
  within the range of \<^verbatim>\<open>Date\<close>, the watermark after any number of iterations is the largest of
  that initial value and the creation timestamps of the accepted entries (an accepted
  entry without a creation date does not count), and it does not decrease over any number
  of further iterations.
\<close>

theorem monitor_watermark:
  "(since st = Some w \<longrightarrow> (\<exists>w'. since (monitor_iter st r) = Some w' \<and> w \<le> w'))
   \<and> (newDate (now - lookbackMinutes * 60000) = Some init \<longrightarrow>
        since (monitor now lookbackMinutes polls) =
          Some (Max (insert init
                  (set (timestamps (accepted (console (monitor now lookbackMinutes polls)))))))
        \<and> (\<exists>v v'. since (monitor now lookbackMinutes polls) = Some v
              \<and> since (monitor now lookbackMinutes (polls @ later)) = Some v' \<and> v \<le> v'))"
proof -
  have step: "since st = Some w \<longrightarrow> (\<exists>w'. since (monitor_iter st r) = Some w' \<and> w \<le> w')"
    using monitor_iter_since_mono [of st w r] by blast
  have run: "since (monitor now lookbackMinutes polls) =
          Some (Max (insert init
                  (set (timestamps (accepted (console (monitor now lookbackMinutes polls)))))))
        \<and> (\<exists>v v'. since (monitor now lookbackMinutes polls) = Some v
              \<and> since (monitor now lookbackMinutes (polls @ later)) = Some v' \<and> v \<le> v')"
    if valid: "newDate (now - lookbackMinutes * 60000) = Some init"
  proof -
    have "watermark_inv init (monitor_init now lookbackMinutes)"
      using valid by (simp add: watermark_inv_def monitor_init_def timestamps_def
          List.map_filter_def)
    then have "watermark_inv init (monitor now lookbackMinutes polls)"
      unfolding monitor_def by (rule foldl_monitor_iter_watermark)
    then have eq: "since (monitor now lookbackMinutes polls) =
          Some (Max (insert init
                  (set (timestamps (accepted (console (monitor now lookbackMinutes polls)))))))"
      by (simp only: watermark_inv_def)
    have "\<exists>v'. since (foldl monitor_iter (monitor now lookbackMinutes polls) later) = Some v'
        \<and> Max (insert init
             (set (timestamps (accepted (console (monitor now lookbackMinutes polls)))))) \<le> v'"
      using eq by (rule foldl_monitor_iter_since_mono)
    then have "\<exists>v v'. since (monitor now lookbackMinutes polls) = Some v
        \<and> since (monitor now lookbackMinutes (polls @ later)) = Some v' \<and> v \<le> v'"
      using eq by (simp add: monitor_def)
    then show ?thesis using eq by blast
  qed
  show ?thesis using step run by blast
qed

text \<open>
  The claim as stated takes the watermark to be the largest timestamp of the accepted
  entries whenever one was accepted. With a lookback of five minutes, a first fetch that
  returns an unseen inbound entry created more than five minutes ago is accepted, and the
  watermark stays at the initial lookback value, above the entry's timestamp.
\<close>

theorem monitor_watermark_counterexample:
  "accepted (console (monitor 1700000000000 5 olderPage))
      = [inbound_msg ''SM1'' (Some 1699999000000)]
   \<and> Max (set (timestamps (accepted (console (monitor 1700000000000 5 olderPage)))))
      = 1699999000000
   \<and> since (monitor 1700000000000 5 olderPage) = Some 1699999700000
   \<and> since (monitor 1700000000000 5 olderPage)
      \<noteq> Some (Max (set (timestamps (accepted (console (monitor 1700000000000 5 olderPage))))))"
  by (simp add: monitor_def monitor_init_def monitor_iter_def emitMessage_def newDate_def
      updateSince_def inbound_msg_def timestamps_def List.map_filter_def olderPage_def)

text \<open>
  Three iterations with a lookback of five minutes: an entry, a failed fetch, and a page
  with an older entry and the first one again.
\<close>

theorem monitor_watermark_witness:
  "newDate (1700000000000 - 5 * 60000) = Some 1699999700000
   \<and> since (monitor 1700000000000 5 threePolls) = Some 1699999900000
   \<and> map sid (accepted (console (monitor 1700000000000 5 threePolls))) = [''SM1'', ''SM2'']
   \<and> since (monitor_iter (monitor_init 1700000000000 5) (Inr [inbound_msg ''SM1'' (Some 1699999900000)]))
       = Some 1699999900000"
  using monitor_watermark [of "monitor_init 1700000000000 5" 1699999700000
      "Inr [inbound_msg ''SM1'' (Some 1699999900000)]" 1700000000000 5 1699999700000
      threePolls "[]"]
  by (simp add: monitor_def monitor_init_def monitor_iter_def emitMessage_def newDate_def
      updateSince_def inbound_msg_def timestamps_def List.map_filter_def threePolls_def)

text \<open>
  A lookback so large that the initial \<^verbatim>\<open>Date\<close> is invalid, such as 200000000000 minutes,
  is outside the statement above: the comparison in \<^verbatim>\<open>updateSince\<close> is then always false.
\<close>

lemma monitor_invalid_lookback:
  "newDate (now - lookbackMinutes * 60000) = None \<longrightarrow>
     since (monitor now lookbackMinutes polls) = None"
proof
  assume invalid: "newDate (now - lookbackMinutes * 60000) = None"
  have e: "since (emitMessage st m) = None" if "since st = None" for st m
    using that by (simp add: emitMessage_def updateSince_def split: option.splits)
  have f: "since (foldl emitMessage st ms) = None" if "since st = None" for st ms
    using that by (induction ms arbitrary: st) (simp_all add: e)
  have i: "since (monitor_iter st r) = None" if "since st = None" for st r
    using that by (cases r) (simp_all add: monitor_iter_def f)
  have g: "since (foldl monitor_iter st ps) = None" if "since st = None" for st ps
    using that by (induction ps arbitrary: st) (simp_all add: i)
  show "since (monitor now lookbackMinutes polls) = None"
    unfolding monitor_def by (rule g) (simp add: monitor_init_def invalid)
qed

lemma invalid_lookback_example: "newDate (1700000000000 - 200000000000 * 60000) = None"
  by (simp add: newDate_def)

subsection \<open>Text extraction\<close>



subsection \<open>The media size cap\<close>

lemma length_zeros: "length (zeros n) = n"
  by (simp add: zeros_def)

lemma showNat_16: "showNat 16 = ''16''"
  by (simp add: showNat.simps digitChar_def)

lemma tooLarge_message:
  "tooLarge len =
     new_Error (js (''Media exceeds 16MB limit (got '' @ toFixed1 len 1048576 @ ''MB)''))"
  by (simp add: tooLarge_def MAX_WEB_BYTES_def showNat_16)

lemma digitVal_digitChar: "d < 10 \<Longrightarrow> digitVal (digitChar d) = d"
proof -
  assume "d < 10"
  then have "d = 0 \<or> d = 1 \<or> d = 2 \<or> d = 3 \<or> d = 4 \<or> d = 5 \<or> d = 6 \<or> d = 7 \<or> d = 8 \<or> d = 9"
    by arith
  then show ?thesis
    by (elim disjE) (simp_all add: digitVal_def digitChar_def)
qed

lemma readNat_snoc: "readNat (s @ [c]) = 10 * readNat s + digitVal c"
  by (simp add: readNat_def)

lemma readNat_showNat: "readNat (showNat n) = n"
proof (induction n rule: showNat.induct)
  case (1 n)
  show ?case
  proof (cases "n < 10")
    case True
    then show ?thesis
      by (simp add: showNat.simps [of n] readNat_def digitVal_digitChar)
  next
    case False
    then have "readNat (showNat n) = 10 * readNat (showNat (n div 10)) + digitVal (digitChar (n mod 10))"
      by (simp add: showNat.simps [of n] readNat_snoc)
    then show ?thesis using False "1.IH" by (simp add: digitVal_digitChar)
  qed
qed

lemma showNat_inj: "showNat a = showNat b \<Longrightarrow> a = b"
  by (metis readNat_showNat)

lemma unat_of_char: "unat (of_char c :: 16 word) = of_char c"
proof -
  have "(of_char c :: 16 word) = of_nat (of_char c)"
    by (simp only: of_nat_of_char)
  moreover have "(of_char c :: nat) < 2 ^ 16"
  proof -
    have "(of_char c :: nat) < 256" by (rule nat_of_char_less_256)
    also have "(256 :: nat) < 2 ^ 16" by simp
    finally show ?thesis .
  qed
  ultimately show ?thesis
    by (simp add: unat_of_nat)
qed

lemma js_inj: "js a = js b \<Longrightarrow> a = b"
proof -
  assume "js a = js b"
  then have "map (\<lambda>w. char_of (unat w)) (js a) = map (\<lambda>w. char_of (unat w)) (js b)"
    by simp
  then show ?thesis
    by (simp add: js_def unat_of_char comp_def)
qed

lemma showNat_digit: "r < 10 \<Longrightarrow> showNat r = [digitChar r]"
  by (subst showNat.simps) simp

lemma toFixed1_shape:
  "toFixed1 n d =
     showNat (((20 * n + d) div (2 * d)) div 10)
       @ [CHR ''.'', digitChar (((20 * n + d) div (2 * d)) mod 10)]"
  unfolding toFixed1_def Let_def by (simp add: showNat_digit)

lemma digitChar_inj:
  assumes "a < 10" "b < 10" "digitChar a = digitChar b"
  shows "a = b"
proof -
  have "a = digitVal (digitChar a)" using assms(1) by (simp only: digitVal_digitChar)
  also have "\<dots> = digitVal (digitChar b)" by (simp only: assms(3))
  also have "\<dots> = b" using assms(2) by (simp only: digitVal_digitChar)
  finally show ?thesis .
qed

lemma toFixed1_inj:
  assumes "toFixed1 a d = toFixed1 b d"
  shows "(20 * a + d) div (2 * d) = (20 * b + d) div (2 * d)"
proof -
  let ?s = "(20 * a + d) div (2 * d)" and ?t = "(20 * b + d) div (2 * d)"
  have "showNat (?s div 10) @ [CHR ''.'', digitChar (?s mod 10)]
      = showNat (?t div 10) @ [CHR ''.'', digitChar (?t mod 10)]"
    using assms by (simp only: toFixed1_shape)
  then have "showNat (?s div 10) = showNat (?t div 10)"
      "digitChar (?s mod 10) = digitChar (?t mod 10)"
    by simp_all
  then have "?s div 10 = ?t div 10" "?s mod 10 = ?t mod 10"
    by (auto dest: showNat_inj intro: digitChar_inj)
  then have "?s div 10 * 10 + ?s mod 10 = ?t div 10 * 10 + ?t mod 10"
    by simp
  then show ?thesis by (simp only: div_mult_mod_eq)
qed

lemma tooLarge_inj:
  assumes "tooLarge a = tooLarge b"
  shows "(20 * a + 1048576) div 2097152 = (20 * b + 1048576) div 2097152"
proof -
  have "js (''Media exceeds '' @ showNat (MAX_WEB_BYTES div (1024 * 1024))
          @ ''MB limit (got '' @ toFixed1 a (1024 * 1024) @ ''MB)'')
      = js (''Media exceeds '' @ showNat (MAX_WEB_BYTES div (1024 * 1024))
          @ ''MB limit (got '' @ toFixed1 b (1024 * 1024) @ ''MB)'')"
    using assms by (simp only: tooLarge_def new_Error_def thrown.inject)
  then have "''Media exceeds '' @ showNat (MAX_WEB_BYTES div (1024 * 1024))
          @ ''MB limit (got '' @ toFixed1 a (1024 * 1024) @ ''MB)''
      = ''Media exceeds '' @ showNat (MAX_WEB_BYTES div (1024 * 1024))
          @ ''MB limit (got '' @ toFixed1 b (1024 * 1024) @ ''MB)''"
    by (rule js_inj)
  then have "toFixed1 a (1024 * 1024) = toFixed1 b (1024 * 1024)"
    by (simp only: same_append_eq append_same_eq)
  then have "(20 * a + 1024 * 1024) div (2 * (1024 * 1024))
      = (20 * b + 1024 * 1024) div (2 * (1024 * 1024))"
    by (rule toFixed1_inj)
  then show ?thesis by simp
qed

lemma nearest_tenth:
  fixes n t :: nat
  assumes "t = (20 * n + 1048576) div 2097152"
  shows "2097152 * t \<le> 20 * n + 1048576 \<and> 20 * n + 1048576 < 2097152 * t + 2097152"
proof -
  have a: "2097152 * t \<le> 20 * n + 1048576"
    unfolding assms by (rule times_div_less_eq_dividend)
  have m: "(20 * n + 1048576) mod 2097152 < 2097152" by simp
  have e: "20 * n + 1048576 = 2097152 * t + (20 * n + 1048576) mod 2097152"
    unfolding assms by (simp only: mult_div_mod_eq)
  have b: "20 * n + 1048576 < 2097152 * t + 2097152"
    using m e by linarith
  show ?thesis using a b by (rule conjI)
qed

lemma same_message_close:
  assumes "tooLarge a = tooLarge b"
  shows "10 * a < 10 * b + 1048576"
proof -
  define t where "t = (20 * a + 1048576) div 2097152"
  have tb: "t = (20 * b + 1048576) div 2097152"
    unfolding t_def using assms by (rule tooLarge_inj)
  have "20 * a + 1048576 < 2097152 * t + 2097152"
    using nearest_tenth [OF t_def] by (rule conjunct2)
  moreover have "2097152 * t \<le> 20 * b + 1048576"
    using nearest_tenth [OF tb] by (rule conjunct1)
  ultimately show ?thesis by linarith
qed

text \<open>
  C4. The cap is \<^const>\<open>MAX_WEB_BYTES\<close>, 16 MB. For a remote URL whose response is not ok
  or has no body, \<^verbatim>\<open>loadWebMedia\<close> fails with the HTTP status whatever reading the body
  would give. A payload of exactly the cap is returned, from a remote URL and from a
  local path; a payload of one byte more, or of any larger size, fails with the error for
  its size; and a buffer that is returned never exceeds the cap. The message of that error
  shows the observed size: it holds the decimal digits of a number of tenths of a
  megabyte, which is the tenth nearest to the observed size (the digits read back give
  that number), so two sizes with the same message differ by less than a tenth of a
  megabyte.
\<close>

theorem loadWebMedia_cap:
  "(isHttpUrl (stripFileScheme url) \<and> fetch env (stripFileScheme url) = Inr res
      \<and> (\<not> ok res \<or> \<not> hasBody res)
      \<longrightarrow> loadWebMedia env url = Inl (httpFailed (resp_status res)))
   \<and> (isHttpUrl (stripFileScheme url) \<and> fetch env (stripFileScheme url) = Inr res
      \<and> ok res \<and> hasBody res \<and> arrayBuffer res = Inr bytes
      \<and> length bytes = MAX_WEB_BYTES
      \<longrightarrow> loadWebMedia env url = Inr \<lparr>buffer = bytes, contentType = contentTypeHeader res\<rparr>)
   \<and> (isHttpUrl (stripFileScheme url) \<and> fetch env (stripFileScheme url) = Inr res
      \<and> ok res \<and> hasBody res \<and> arrayBuffer res = Inr bytes
      \<and> MAX_WEB_BYTES + 1 \<le> length bytes
      \<longrightarrow> loadWebMedia env url = Inl (tooLarge (length bytes)))
   \<and> (\<not> isHttpUrl (stripFileScheme url) \<and> readFile env (stripFileScheme url) = Inr bytes
      \<and> length bytes = MAX_WEB_BYTES
      \<longrightarrow> loadWebMedia env url = Inr \<lparr>buffer = bytes, contentType = None\<rparr>)
   \<and> (\<not> isHttpUrl (stripFileScheme url) \<and> readFile env (stripFileScheme url) = Inr bytes
      \<and> MAX_WEB_BYTES + 1 \<le> length bytes
      \<longrightarrow> loadWebMedia env url = Inl (tooLarge (length bytes)))
   \<and> (loadWebMedia env url = Inr media \<longrightarrow> length (buffer media) \<le> MAX_WEB_BYTES)
   \<and> (\<exists>t. tooLarge (length bytes) =
            new_Error (js (''Media exceeds 16MB limit (got ''
              @ showNat (t div 10) @ ''.'' @ showNat (t mod 10) @ ''MB)''))
          \<and> readNat (showNat (t div 10)) = t div 10
          \<and> readNat (showNat (t mod 10)) = t mod 10
          \<and> 2097152 * t \<le> 20 * length bytes + 1048576
          \<and> 20 * length bytes + 1048576 < 2097152 * t + 2097152)
   \<and> (tooLarge (length bytes) = tooLarge n \<longrightarrow>
          10 * length bytes < 10 * n + 1048576 \<and> 10 * n < 10 * length bytes + 1048576)"
proof -
  have bound: "loadWebMedia env url = Inr media \<longrightarrow> length (buffer media) \<le> MAX_WEB_BYTES"
    by (auto simp add: loadWebMedia_def Let_def split: sum.splits if_splits)
  define t where "t = (20 * length bytes + 1048576) div 2097152"
  have msg: "tooLarge (length bytes) =
            new_Error (js (''Media exceeds 16MB limit (got ''
              @ showNat (t div 10) @ ''.'' @ showNat (t mod 10) @ ''MB)''))"
    by (simp add: tooLarge_message toFixed1_def Let_def t_def)
  have shown: "\<exists>t. tooLarge (length bytes) =
            new_Error (js (''Media exceeds 16MB limit (got ''
              @ showNat (t div 10) @ ''.'' @ showNat (t mod 10) @ ''MB)''))
          \<and> readNat (showNat (t div 10)) = t div 10
          \<and> readNat (showNat (t mod 10)) = t mod 10
          \<and> 2097152 * t \<le> 20 * length bytes + 1048576
          \<and> 20 * length bytes + 1048576 < 2097152 * t + 2097152"
    using msg nearest_tenth [OF t_def] readNat_showNat by blast
  have close: "tooLarge (length bytes) = tooLarge n \<longrightarrow>
          10 * length bytes < 10 * n + 1048576 \<and> 10 * n < 10 * length bytes + 1048576"
    using same_message_close [of "length bytes" n] same_message_close [of n "length bytes"]
    by auto
  have cases: "(isHttpUrl (stripFileScheme url) \<and> fetch env (stripFileScheme url) = Inr res
      \<and> (\<not> ok res \<or> \<not> hasBody res)
      \<longrightarrow> loadWebMedia env url = Inl (httpFailed (resp_status res)))
   \<and> (isHttpUrl (stripFileScheme url) \<and> fetch env (stripFileScheme url) = Inr res
      \<and> ok res \<and> hasBody res \<and> arrayBuffer res = Inr bytes
      \<and> length bytes = MAX_WEB_BYTES
      \<longrightarrow> loadWebMedia env url = Inr \<lparr>buffer = bytes, contentType = contentTypeHeader res\<rparr>)
   \<and> (isHttpUrl (stripFileScheme url) \<and> fetch env (stripFileScheme url) = Inr res
      \<and> ok res \<and> hasBody res \<and> arrayBuffer res = Inr bytes
      \<and> MAX_WEB_BYTES + 1 \<le> length bytes
      \<longrightarrow> loadWebMedia env url = Inl (tooLarge (length bytes)))
   \<and> (\<not> isHttpUrl (stripFileScheme url) \<and> readFile env (stripFileScheme url) = Inr bytes
      \<and> length bytes = MAX_WEB_BYTES
      \<longrightarrow> loadWebMedia env url = Inr \<lparr>buffer = bytes, contentType = None\<rparr>)
   \<and> (\<not> isHttpUrl (stripFileScheme url) \<and> readFile env (stripFileScheme url) = Inr bytes
      \<and> MAX_WEB_BYTES + 1 \<le> length bytes
      \<longrightarrow> loadWebMedia env url = Inl (tooLarge (length bytes)))"
    by (simp add: loadWebMedia_def Let_def)
  show ?thesis using cases bound shown close by blast
qed

lemma isHttpUrl_examples:
  "isHttpUrl (js ''https://x/y.png'')" "isHttpUrl (js ''HTTP://x/y.png'')"
  "\<not> isHttpUrl (js ''/tmp/y.png'')"
  "stripFileScheme (js ''file:///tmp/y.png'') = js ''/tmp/y.png''"
  "stripFileScheme (js ''/tmp/y.png'') = js ''/tmp/y.png''"
  "stripFileScheme (js ''https://x/y.png'') = js ''https://x/y.png''"
  "stripFileScheme (js ''HTTP://x/y.png'') = js ''HTTP://x/y.png''"
  by (simp_all add: stripFileScheme_def startsWith_def isHttpUrl_def lowerAscii_def js_def)

lemma message_examples:
  "tooLarge 16777217 = new_Error (js ''Media exceeds 16MB limit (got 16.0MB)'')"
  "tooLarge 17091789 = new_Error (js ''Media exceeds 16MB limit (got 16.3MB)'')"
  "tooLarge 104857600 = new_Error (js ''Media exceeds 16MB limit (got 100.0MB)'')"
  "httpFailed 404 = new_Error (js ''Failed to fetch media: HTTP 404'')"
  by (simp_all add: tooLarge_def MAX_WEB_BYTES_def toFixed1_def httpFailed_def showInt_def
      showNat.simps digitChar_def)

text \<open>
  A remote payload of exactly 16777216 bytes, one of 16777217 bytes, a 404 response, the
  same two sizes read from a local path, and two larger payloads, of 17091789 bytes
  (16.3 MB) and of 104857600 bytes (100.0 MB), whose messages differ as their sizes do.
\<close>

theorem loadWebMedia_cap_witness:
  "loadWebMedia (serving (png_response True 200 16777216) (zeros 16777216)) (js ''https://x/y.png'')
      = Inr \<lparr>buffer = zeros 16777216, contentType = Some (js ''image/png'')\<rparr>
   \<and> loadWebMedia (serving (png_response True 200 16777217) (zeros 16777216)) (js ''HTTP://x/y.png'')
      = Inl (new_Error (js ''Media exceeds 16MB limit (got 16.0MB)''))
   \<and> loadWebMedia (serving (png_response False 404 5) (zeros 16777216)) (js ''https://x/y.png'')
      = Inl (new_Error (js ''Failed to fetch media: HTTP 404''))
   \<and> loadWebMedia (serving (png_response True 200 5) (zeros 16777216)) (js ''file:///tmp/y.png'')
      = Inr \<lparr>buffer = zeros 16777216, contentType = None\<rparr>
   \<and> loadWebMedia (serving (png_response True 200 5) (zeros 16777217)) (js ''/tmp/y.png'')
      = Inl (new_Error (js ''Media exceeds 16MB limit (got 16.0MB)''))
   \<and> loadWebMedia (serving (png_response True 200 17091789) (zeros 5)) (js ''https://x/y.png'')
      = Inl (new_Error (js ''Media exceeds 16MB limit (got 16.3MB)''))
   \<and> loadWebMedia (serving (png_response True 200 5) (zeros 104857600)) (js ''/tmp/y.png'')
      = Inl (new_Error (js ''Media exceeds 16MB limit (got 100.0MB)''))
   \<and> tooLarge 17091789 \<noteq> tooLarge 16777217"
proof -
  have a: "loadWebMedia (serving (png_response True 200 16777216) (zeros 16777216))
        (js ''https://x/y.png'')
      = Inr \<lparr>buffer = zeros 16777216, contentType = Some (js ''image/png'')\<rparr>"
    using loadWebMedia_cap [of "js ''https://x/y.png''"
        "serving (png_response True 200 16777216) (zeros 16777216)"
        "png_response True 200 16777216" "zeros 16777216"]
    by (simp add: isHttpUrl_examples serving_def png_response_def length_zeros
        MAX_WEB_BYTES_def)
  have b: "loadWebMedia (serving (png_response True 200 16777217) (zeros 16777216))
        (js ''HTTP://x/y.png'') = Inl (tooLarge 16777217)"
    using loadWebMedia_cap [of "js ''HTTP://x/y.png''"
        "serving (png_response True 200 16777217) (zeros 16777216)"
        "png_response True 200 16777217" "zeros 16777217"]
    by (simp add: isHttpUrl_examples serving_def png_response_def length_zeros
        MAX_WEB_BYTES_def)
  have c: "loadWebMedia (serving (png_response False 404 5) (zeros 16777216))
        (js ''https://x/y.png'') = Inl (httpFailed 404)"
    using loadWebMedia_cap [of "js ''https://x/y.png''"
        "serving (png_response False 404 5) (zeros 16777216)"
        "png_response False 404 5" "zeros 16777217"]
    by (simp add: isHttpUrl_examples serving_def png_response_def)
  have d: "loadWebMedia (serving (png_response True 200 5) (zeros 16777216))
        (js ''file:///tmp/y.png'')
      = Inr \<lparr>buffer = zeros 16777216, contentType = None\<rparr>"
    using loadWebMedia_cap [of "js ''file:///tmp/y.png''"
        "serving (png_response True 200 5) (zeros 16777216)"
        "png_response True 200 5" "zeros 16777216"]
    by (simp add: isHttpUrl_examples serving_def length_zeros MAX_WEB_BYTES_def)
  have e: "loadWebMedia (serving (png_response True 200 5) (zeros 16777217))
        (js ''/tmp/y.png'') = Inl (tooLarge 16777217)"
    using loadWebMedia_cap [of "js ''/tmp/y.png''"
        "serving (png_response True 200 5) (zeros 16777217)"
        "png_response True 200 5" "zeros 16777217"]
    by (simp add: isHttpUrl_examples serving_def length_zeros MAX_WEB_BYTES_def)
  have f: "loadWebMedia (serving (png_response True 200 17091789) (zeros 5))
        (js ''https://x/y.png'') = Inl (tooLarge 17091789)"
    using loadWebMedia_cap [of "js ''https://x/y.png''"
        "serving (png_response True 200 17091789) (zeros 5)"
        "png_response True 200 17091789" "zeros 17091789"]
    by (simp add: isHttpUrl_examples serving_def png_response_def length_zeros
        MAX_WEB_BYTES_def)
  have g: "loadWebMedia (serving (png_response True 200 5) (zeros 104857600))
        (js ''/tmp/y.png'') = Inl (tooLarge 104857600)"
    using loadWebMedia_cap [of "js ''/tmp/y.png''"
        "serving (png_response True 200 5) (zeros 104857600)"
        "png_response True 200 5" "zeros 104857600"]
    by (simp add: isHttpUrl_examples serving_def length_zeros MAX_WEB_BYTES_def)
  have h: "tooLarge 17091789 \<noteq> tooLarge 16777217"
    using loadWebMedia_cap [of "js ''/tmp/y.png''"
        "serving (png_response True 200 5) (zeros 17091789)"
        "png_response True 200 5" "zeros 17091789" _ 16777217]
    by (simp add: length_zeros)
  show ?thesis using a b c d e f g h by (simp add: message_examples)
qed

subsection \<open>Login: restart and logged-out closes\<close>

lemma closeCode_closedWith: "closeCode (closedWith c) = Some c"
  by (simp add: closeCode_def closedWith_def propsOf_def nullish_def no_props_def)

text \<open>
  C5, as the code has it. When the first connection wait of \<^verbatim>\<open>loginWeb\<close> closes with code
  515, exactly one more socket is created, without the pairing prompt. If its wait
  reaches the open state, \<^verbatim>\<open>loginWeb\<close> says the session is linked after the restart and
  returns. If it closes too, \<^verbatim>\<open>loginWeb\<close> rejects with the value the retry's wait rejected
  with (the \<^verbatim>\<open>try\<close> around the retry has a \<^verbatim>\<open>finally\<close> and no \<^verbatim>\<open>catch\<close>); nothing is said
  to be linked and the credential directory is not removed.
\<close>

theorem loginWeb_restart:
  "waitForConnection 0 = Some err \<and> closeCode err = Some 515 \<longrightarrow>
     socketsCreated (events (loginWeb loggedOut waitForConnection fs)) = [True, False]
     \<and> (waitForConnection 1 = None \<longrightarrow>
          thrownBy (loginWeb loggedOut waitForConnection fs) = None
          \<and> SaidLinkedAfterRestart \<in> set (events (loginWeb loggedOut waitForConnection fs)))
     \<and> (waitForConnection 1 = Some retryErr \<longrightarrow>
          thrownBy (loginWeb loggedOut waitForConnection fs) = Some retryErr
          \<and> SaidLinkedAfterRestart \<notin> set (events (loginWeb loggedOut waitForConnection fs))
          \<and> RemoveAuthDir \<notin> set (events (loginWeb loggedOut waitForConnection fs)))"
  by (cases "waitForConnection 1") (simp_all add: loginWeb_def)

text \<open>
  A restart followed by an open connection, and a restart followed by a close with code
  408.
\<close>

theorem loginWeb_restart_witness:
  "socketsCreated (events (loginWeb 401 (closingThenOpen 515) linkedDir)) = [True, False]
   \<and> thrownBy (loginWeb 401 (closingThenOpen 515) linkedDir) = None
   \<and> SaidLinkedAfterRestart \<in> set (events (loginWeb 401 (closingThenOpen 515) linkedDir))
   \<and> socketsCreated (events (loginWeb 401 (closing 515 408) linkedDir)) = [True, False]
   \<and> thrownBy (loginWeb 401 (closing 515 408) linkedDir) = Some (closedWith 408)"
  using loginWeb_restart [of "closingThenOpen 515" "closedWith 515" 401 linkedDir]
    loginWeb_restart [of "closing 515 408" "closedWith 515" 401 linkedDir "closedWith 408"]
  by (simp add: closingThenOpen_def closing_def closeCode_closedWith)

text \<open>
  The claim as stated has the original close error surfaced when the retry closes too. With
  a first close of code 515 and a retry that closes with code 408, the caller gets the
  retry's close value: neither the first close value nor an error built from it.
\<close>

theorem loginWeb_restart_counterexample:
  "thrownBy (loginWeb 401 (closing 515 408) linkedDir) = Some (closedWith 408)
   \<and> thrownBy (loginWeb 401 (closing 515 408) linkedDir) \<noteq> Some (closedWith 515)
   \<and> thrownBy (loginWeb 401 (closing 515 408) linkedDir)
       \<noteq> Some (new_Error (formatError (closedWith 515)))"
  by (simp add: loginWeb_def closing_def closeCode_closedWith)
    (simp add: closedWith_def new_Error_def no_props_def)

text \<open>
  C7, as the code has it. When the first connection wait of \<^verbatim>\<open>loginWeb\<close> closes with the
  logged-out code, the credential directory is removed and \<^verbatim>\<open>loginWeb\<close> fails with the
  error that asks to run the login again. The directory is removed in no other case: a
  removal implies that the first wait closed with the logged-out code. The logged-out code
  is the library's constant, which is not 515.
\<close>

theorem loginWeb_logged_out:
  "(loggedOut \<noteq> 515 \<and> waitForConnection 0 = Some err \<and> closeCode err = Some loggedOut \<longrightarrow>
      files (loginWeb loggedOut waitForConnection fs) = None
      \<and> RemoveAuthDir \<in> set (events (loginWeb loggedOut waitForConnection fs))
      \<and> thrownBy (loginWeb loggedOut waitForConnection fs)
          = Some (new_Error (js ''Session logged out; cache cleared. Re-run login.'')))
   \<and> (RemoveAuthDir \<in> set (events (loginWeb loggedOut waitForConnection fs))
        \<or> files (loginWeb loggedOut waitForConnection fs) = None \<longrightarrow>
      (\<exists>e. waitForConnection 0 = Some e \<and> closeCode e = Some loggedOut))"
  by (auto simp add: loginWeb_def Let_def sessionLoggedOut_def ensureDir_def
      split: option.splits if_splits)

text \<open>
  With the library's logged-out code 401: a first close with 401 removes the directory; a
  first close with 408 leaves it as it was.
\<close>

theorem loginWeb_logged_out_witness:
  "files (loginWeb 401 (closing 401 401) linkedDir) = None
   \<and> thrownBy (loginWeb 401 (closing 401 401) linkedDir)
       = Some (new_Error (js ''Session logged out; cache cleared. Re-run login.''))
   \<and> files (loginWeb 401 (closing 408 408) linkedDir) = linkedDir"
  using loginWeb_logged_out [of 401 "closing 401 401" "closedWith 401" linkedDir]
    loginWeb_logged_out [of 401 "closing 408 408" "closedWith 408" linkedDir]
  by (simp add: closing_def closeCode_closedWith)
    (simp add: loginWeb_def closing_def closeCode_closedWith ensureDir_def linkedDir_def)

text \<open>
  The claim as stated covers every logged-out close during the login. When the first
  connection closes with code 515 and the retry closes with the logged-out code 401, the
  directory stays and the caller gets the retry's close value, not the error that asks to
  pair again.
\<close>

theorem loginWeb_logged_out_counterexample:
  "closeCode (closedWith 401) = Some 401
   \<and> files (loginWeb 401 (closing 515 401) linkedDir) = linkedDir
   \<and> linkedDir \<noteq> None
   \<and> RemoveAuthDir \<notin> set (events (loginWeb 401 (closing 515 401) linkedDir))
   \<and> thrownBy (loginWeb 401 (closing 515 401) linkedDir) = Some (closedWith 401)
   \<and> closedWith 401 \<noteq> new_Error (js ''Session logged out; cache cleared. Re-run login.'')"
  by (simp add: loginWeb_def closing_def closeCode_closedWith ensureDir_def linkedDir_def)
    (simp add: closedWith_def new_Error_def)

subsection \<open>Provider resolution\<close>

text \<open>
  Where the code does what is said of it: an explicit provider is returned as it is,
  whatever the credential directory holds; \<^verbatim>\<open>auto\<close> gives the web provider when a valid
  credential snapshot exists, and the Twilio provider when there is no credential
  directory.
\<close>

lemma pickProvider_agreed:
  "pickProvider (Explicit p) fs = p
   \<and> (validCredentialSnapshot fs \<longrightarrow> pickProvider Auto fs = Web)
   \<and> pickProvider Auto None = Twilio"
  by (auto simp add: pickProvider_def webAuthExists_def validCredentialSnapshot_def)

text \<open>
  C9. Resolution with \<^verbatim>\<open>auto\<close> is to give the web provider exactly when a valid credential
  snapshot exists, as the comment in \<^verbatim>\<open>pickProvider\<close> says too (web when logged in, Twilio
  otherwise). The code tests only that the credential directory can be accessed. At a
  directory that exists and holds no credentials, which is what \<^verbatim>\<open>ensureDir\<close> in
  \<^verbatim>\<open>createWaSocket\<close> makes where there was none, no valid snapshot exists and the code
  gives the web provider.
\<close>

theorem pickProvider_empty_directory:
  "ensureDir None = emptyDir
   \<and> \<not> validCredentialSnapshot emptyDir
   \<and> webAuthExists emptyDir
   \<and> pickProvider Auto emptyDir = Web"
  by (simp add: validCredentialSnapshot_def emptyDir_def pickProvider_def webAuthExists_def
      ensureDir_def)

subsection \<open>De-duplication of inbound messages\<close>

lemma dispatched_append: "dispatched (xs @ ys) = dispatched xs @ dispatched ys"
  by (induction xs rule: dispatched.induct) simp_all

lemma dispatchedIds_append: "dispatchedIds (xs @ ys) = dispatchedIds xs @ dispatchedIds ys"
  by (simp add: dispatchedIds_def dispatched_append List.map_filter_def)

lemma handleInbound_seen:
  "idSeen (Option.bind (msg_key msg) key_id) known \<Longrightarrow>
     handleInbound env h known msg = (known, [])"
  by (simp add: handleInbound_def)

lemma handleInbound_known:
  "fst (handleInbound env h known msg) =
     (if idSeen (Option.bind (msg_key msg) key_id) known then known
      else addId (Option.bind (msg_key msg) key_id) known)"
  by (simp add: handleInbound_def Let_def split: option.splits)

lemma handleInbound_dispatched:
  "dispatched (snd (handleInbound env h known msg)) =
     (if \<not> idSeen (Option.bind (msg_key msg) key_id) known \<and> deliverable env msg
      then dispatched (snd (handleInbound env h {} msg)) else [])
   \<and> (deliverable env msg \<longrightarrow>
        (\<exists>w. dispatched (snd (handleInbound env h {} msg)) = [w]
           \<and> in_id w = Option.bind (msg_key msg) key_id))"
  by (auto simp add: handleInbound_def Let_def deliverable_def dispatched_append idSeen_def
      truthy_def split: option.splits)

lemma truthyIds_append: "truthyIds (xs @ ys) = truthyIds xs @ truthyIds ys"
  by (simp add: truthyIds_def dispatchedIds_append)

lemma handleInbound_inv:
  assumes "handleInbound env h known msg = (known', es)"
  shows "known \<subseteq> known' \<and> set (truthyIds es) \<subseteq> known' - known \<and> distinct (truthyIds es)"
proof -
  let ?i = "Option.bind (msg_key msg) key_id"
  have k: "known' = (if idSeen ?i known then known else addId ?i known)"
    using handleInbound_known [of env h known msg] assms by simp
  have sub: "known \<subseteq> known'"
    unfolding k by (auto simp add: addId_def split: option.splits)
  have d: "dispatched es =
      (if \<not> idSeen ?i known \<and> deliverable env msg
       then dispatched (snd (handleInbound env h {} msg)) else [])"
    using handleInbound_dispatched [of env h known msg] assms by simp
  show ?thesis
  proof (cases "\<not> idSeen ?i known \<and> deliverable env msg")
    case False
    then have "dispatched es = []" using d by auto
    then show ?thesis using sub by (simp add: truthyIds_def dispatchedIds_def List.map_filter_def)
  next
    case True
    then obtain w where w: "dispatched (snd (handleInbound env h {} msg)) = [w]"
        "in_id w = ?i"
      using handleInbound_dispatched [of env h known msg] by blast
    then have ids: "truthyIds es = (case ?i of None \<Rightarrow> [] | Some s \<Rightarrow> if s \<noteq> [] then [s] else [])"
      using d True by (simp add: truthyIds_def dispatchedIds_def List.map_filter_def split: option.splits)
    show ?thesis using sub True unfolding ids k
      by (auto simp add: addId_def idSeen_def split: option.splits)
  qed
qed

lemma handleMessages_inv:
  "handleMessages env h known ms = (known', es) \<Longrightarrow>
     known \<subseteq> known' \<and> set (truthyIds es) \<subseteq> known' - known \<and> distinct (truthyIds es)"
proof (induction ms arbitrary: known known' es)
  case Nil
  then show ?case by (simp add: truthyIds_def dispatchedIds_def List.map_filter_def)
next
  case (Cons m ms)
  obtain k1 e1 where one: "handleInbound env h known m = (k1, e1)"
    by (cases "handleInbound env h known m")
  obtain k2 e2 where rest: "handleMessages env h k1 ms = (k2, e2)"
    by (cases "handleMessages env h k1 ms")
  have res: "known' = k2" "es = e1 @ e2"
    using Cons.prems one rest by simp_all
  have i1: "known \<subseteq> k1 \<and> set (truthyIds e1) \<subseteq> k1 - known \<and> distinct (truthyIds e1)"
    using one by (rule handleInbound_inv)
  have i2: "k1 \<subseteq> k2 \<and> set (truthyIds e2) \<subseteq> k2 - k1 \<and> distinct (truthyIds e2)"
    using rest by (rule Cons.IH)
  show ?case unfolding res truthyIds_append using i1 i2 by auto
qed

lemma onUpsert_inv:
  "onUpsert env h known u = (known', es) \<Longrightarrow>
     known \<subseteq> known' \<and> set (truthyIds es) \<subseteq> known' - known \<and> distinct (truthyIds es)"
proof (cases "upsert_type u \<noteq> js ''notify''")
  case True
  assume "onUpsert env h known u = (known', es)"
  then show ?thesis using True
    by (auto simp add: onUpsert_def truthyIds_def dispatchedIds_def List.map_filter_def)
next
  case False
  assume "onUpsert env h known u = (known', es)"
  then have "handleMessages env h known (upsert_messages u) = (known', es)"
    using False by (simp add: onUpsert_def)
  then show ?thesis by (rule handleMessages_inv)
qed

lemma handleUpserts_inv:
  "handleUpserts env h known us = (known', es) \<Longrightarrow>
     known \<subseteq> known' \<and> set (truthyIds es) \<subseteq> known' - known \<and> distinct (truthyIds es)"
proof (induction us arbitrary: known known' es)
  case Nil
  then show ?case by (simp add: truthyIds_def dispatchedIds_def List.map_filter_def)
next
  case (Cons u us)
  obtain k1 e1 where one: "onUpsert env h known u = (k1, e1)"
    by (cases "onUpsert env h known u")
  obtain k2 e2 where rest: "handleUpserts env h k1 us = (k2, e2)"
    by (cases "handleUpserts env h k1 us")
  have res: "known' = k2" "es = e1 @ e2"
    using Cons.prems one rest by simp_all
  have i1: "known \<subseteq> k1 \<and> set (truthyIds e1) \<subseteq> k1 - known \<and> distinct (truthyIds e1)"
    using one by (rule onUpsert_inv)
  have i2: "k1 \<subseteq> k2 \<and> set (truthyIds e2) \<subseteq> k2 - k1 \<and> distinct (truthyIds e2)"
    using rest by (rule Cons.IH)
  show ?case unfolding res truthyIds_append using i1 i2 by auto
qed

lemma emitMessage_dedup: "dedup_inv st \<Longrightarrow> dedup_inv (emitMessage st m)"
  by (auto simp add: dedup_inv_def emitMessage_def updateSince_def accepted_append
      split: option.splits)

lemma foldl_emitMessage_dedup: "dedup_inv st \<Longrightarrow> dedup_inv (foldl emitMessage st ms)"
  by (induction ms arbitrary: st) (simp_all add: emitMessage_dedup)

lemma monitor_iter_dedup: "dedup_inv st \<Longrightarrow> dedup_inv (monitor_iter st r)"
  by (cases r) (simp_all add: monitor_iter_def foldl_emitMessage_dedup,
      simp add: dedup_inv_def accepted_append)

lemma foldl_monitor_iter_dedup: "dedup_inv st \<Longrightarrow> dedup_inv (foldl monitor_iter st polls)"
  by (induction polls arbitrary: st) (simp_all add: monitor_iter_dedup)

text \<open>
  C1, as the code has it. In the poll transport the sids of the messages printed over any
  number of iterations are distinct, and a message whose sid is in \<^verbatim>\<open>seen\<close> changes
  nothing. In the session transport the truthy ids of the messages the inbound handler is
  called with, over any sequence of upsert events, are distinct, and a message whose
  truthy id is in \<^verbatim>\<open>seen\<close> produces no event. The test \<^verbatim>\<open>id && seen.has(id)\<close> leaves out
  the absent id and the empty string.
\<close>

theorem inbound_at_most_once:
  "distinct (map sid (accepted (console (monitor now lookbackMinutes polls))))
   \<and> (sid m \<in> seen st \<longrightarrow> emitMessage st m = st)
   \<and> distinct (truthyIds (monitorWebInbox env handler upserts))
   \<and> (idSeen (Option.bind (msg_key msg) key_id) known \<longrightarrow>
        handleInbound env handler known msg = (known, []))"
proof -
  have "dedup_inv (monitor_init now lookbackMinutes)"
    by (simp add: dedup_inv_def monitor_init_def)
  then have "dedup_inv (monitor now lookbackMinutes polls)"
    unfolding monitor_def by (rule foldl_monitor_iter_dedup)
  then have poll: "distinct (map sid (accepted (console (monitor now lookbackMinutes polls))))"
    by (simp add: dedup_inv_def)
  obtain k es where run: "handleUpserts env handler {} upserts = (k, es)"
    by (cases "handleUpserts env handler {} upserts")
  have web: "distinct (truthyIds (monitorWebInbox env handler upserts))"
    using handleUpserts_inv [OF run] run by (simp add: monitorWebInbox_def)
  show ?thesis using poll web
    by (simp add: emitMessage_def handleInbound_seen)
qed

text \<open>
  The same message delivered twice in one upsert and once more in the next, and the same
  sid listed twice in one page and once more in the next: one dispatch, one line.
\<close>

theorem inbound_at_most_once_witness:
  "truthyIds (monitorWebInbox exampleInbox resolves
       [notify [textMessage (Some (js ''3EB0A'')), textMessage (Some (js ''3EB0A''))],
        notify [textMessage (Some (js ''3EB0A''))]]) = [js ''3EB0A'']
   \<and> map sid (accepted (console (monitor 1000000 5
       [Inr [inbound_msg ''SM1'' (Some 900000), inbound_msg ''SM1'' (Some 900000)],
        Inr [inbound_msg ''SM1'' (Some 900000)]]))) = [''SM1'']"
proof -
  have a: "truthyIds (monitorWebInbox exampleInbox resolves
       [notify [textMessage (Some (js ''3EB0A'')), textMessage (Some (js ''3EB0A''))],
        notify [textMessage (Some (js ''3EB0A''))]]) = [js ''3EB0A'']"
    by (simp add: monitorWebInbox_def onUpsert_def notify_def handleInbound_def Let_def
        textMessage_def exampleInbox_def directChat_def idSeen_def addId_def endsWith_def
        inboundBody_def extractText_def trimmed_def trim_def isWhiteSpace_def
        empty_message_def resolves_def truthyIds_def dispatchedIds_def List.map_filter_def
        savedMedia_def downloadInboundMedia_def hasMedia_def selfAddress_def truthyNum_def
        js_def)
  have b: "map sid (accepted (console (monitor 1000000 5
       [Inr [inbound_msg ''SM1'' (Some 900000), inbound_msg ''SM1'' (Some 900000)],
        Inr [inbound_msg ''SM1'' (Some 900000)]]))) = [''SM1'']"
    by (simp add: monitor_def monitor_init_def monitor_iter_def emitMessage_def
        updateSince_def inbound_msg_def newDate_def)
  show ?thesis
    using a b inbound_at_most_once [of 1000000 5
        "[Inr [inbound_msg ''SM1'' (Some 900000), inbound_msg ''SM1'' (Some 900000)],
          Inr [inbound_msg ''SM1'' (Some 900000)]]"]
    by simp
qed

text \<open>
  The claim as stated counts every message id. A message whose \<^verbatim>\<open>key.id\<close> is the empty
  string is falsy in \<^verbatim>\<open>id && seen.has(id)\<close> and in \<^verbatim>\<open>if (id) seen.add(id)\<close>: delivered
  twice, it reaches the inbound handler twice, with the same id.
\<close>

theorem inbound_at_most_once_counterexample:
  "dispatchedIds (monitorWebInbox exampleInbox resolves
       [notify [textMessage (Some []), textMessage (Some [])]]) = [[], []]
   \<and> \<not> distinct (dispatchedIds (monitorWebInbox exampleInbox resolves
       [notify [textMessage (Some []), textMessage (Some [])]]))"
proof -
  have a: "dispatchedIds (monitorWebInbox exampleInbox resolves
       [notify [textMessage (Some []), textMessage (Some [])]]) = [[], []]"
    by (simp add: monitorWebInbox_def onUpsert_def notify_def handleInbound_def Let_def
        textMessage_def exampleInbox_def directChat_def idSeen_def addId_def endsWith_def
        inboundBody_def extractText_def trimmed_def trim_def isWhiteSpace_def
        empty_message_def resolves_def dispatchedIds_def List.map_filter_def
        savedMedia_def downloadInboundMedia_def hasMedia_def selfAddress_def truthyNum_def
        js_def)
  show ?thesis unfolding a by simp
qed

subsection \<open>Messages without an id\<close>

lemma handleInbound_no_id:
  assumes "\<not> truthy (Option.bind (msg_key msg) key_id)"
  shows "handleInbound env h known msg = (known, snd (handleInbound env h {} msg))"
proof -
  have i: "\<not> idSeen (Option.bind (msg_key msg) key_id) k"
      "addId (Option.bind (msg_key msg) key_id) k = k" for k
    using assms by (auto simp add: idSeen_def addId_def truthy_def split: option.splits)
  show ?thesis
    by (simp add: handleInbound_def Let_def i split: option.splits)
qed

lemma handleMessages_no_id:
  assumes "\<not> truthy (Option.bind (msg_key msg) key_id)"
  shows "handleMessages env h known (replicate n msg) =
     (known, concat (replicate n (snd (handleInbound env h {} msg))))"
proof -
  define es where "es = snd (handleInbound env h {} msg)"
  have one: "handleInbound env h k msg = (k, es)" for k
    unfolding es_def using assms by (rule handleInbound_no_id)
  have "handleMessages env h known (replicate n msg) = (known, concat (replicate n es))"
    by (induction n) (simp_all add: one)
  then show ?thesis by (simp add: es_def)
qed

lemma dispatched_concat_replicate:
  "dispatched (concat (replicate n es)) = concat (replicate n (dispatched es))"
  by (induction n) (simp_all add: dispatched_append)

text \<open>
  C10. A message whose \<^verbatim>\<open>key.id\<close> is absent (or the empty string) leaves \<^verbatim>\<open>seen\<close> as it
  was and is not skipped by the test on \<^verbatim>\<open>seen\<close>: what the listener does with it does not
  depend on \<^verbatim>\<open>seen\<close>. So, delivered \<open>n\<close> times, it reaches the inbound handler \<open>n\<close> times
  when it passes the other tests of the loop body, and never when it does not.
\<close>

theorem no_id_never_deduplicated:
  "\<not> truthy (Option.bind (msg_key msg) key_id) \<longrightarrow>
     fst (handleInbound env handler known msg) = known
     \<and> \<not> idSeen (Option.bind (msg_key msg) key_id) known
     \<and> snd (handleInbound env handler known msg) = snd (handleInbound env handler {} msg)
     \<and> (deliverable env msg \<longrightarrow>
          length (dispatched (snd (handleMessages env handler known (replicate n msg)))) = n)
     \<and> (\<not> deliverable env msg \<longrightarrow>
          dispatched (snd (handleMessages env handler known (replicate n msg))) = [])"
proof
  assume no: "\<not> truthy (Option.bind (msg_key msg) key_id)"
  have one: "handleInbound env handler known msg
      = (known, snd (handleInbound env handler {} msg))"
    using no by (rule handleInbound_no_id)
  have unseen: "\<not> idSeen (Option.bind (msg_key msg) key_id) known"
    using no by (auto simp add: idSeen_def truthy_def split: option.splits)
  have many: "dispatched (snd (handleMessages env handler known (replicate n msg)))
      = concat (replicate n (dispatched (snd (handleInbound env handler {} msg))))"
    by (simp add: handleMessages_no_id [OF no] dispatched_concat_replicate)
  have yes: "deliverable env msg \<longrightarrow>
      length (dispatched (snd (handleMessages env handler known (replicate n msg)))) = n"
  proof
    assume "deliverable env msg"
    then obtain w where "dispatched (snd (handleInbound env handler {} msg)) = [w]"
      using handleInbound_dispatched [of env handler "{}" msg] by blast
    then show "length (dispatched (snd (handleMessages env handler known (replicate n msg)))) = n"
      unfolding many by (simp add: length_concat)
  qed
  have nope: "\<not> deliverable env msg \<longrightarrow>
      dispatched (snd (handleMessages env handler known (replicate n msg))) = []"
  proof
    assume "\<not> deliverable env msg"
    then have "dispatched (snd (handleInbound env handler {} msg)) = []"
      using handleInbound_dispatched [of env handler "{}" msg] by simp
    then show "dispatched (snd (handleMessages env handler known (replicate n msg))) = []"
      unfolding many by simp
  qed
  show "fst (handleInbound env handler known msg) = known
     \<and> \<not> idSeen (Option.bind (msg_key msg) key_id) known
     \<and> snd (handleInbound env handler known msg) = snd (handleInbound env handler {} msg)
     \<and> (deliverable env msg \<longrightarrow>
          length (dispatched (snd (handleMessages env handler known (replicate n msg)))) = n)
     \<and> (\<not> deliverable env msg \<longrightarrow>
          dispatched (snd (handleMessages env handler known (replicate n msg))) = [])"
    using one unseen yes nope by simp
qed

lemma deliverable_textMessage: "deliverable exampleInbox (textMessage None)"
  by (simp add: deliverable_def textMessage_def exampleInbox_def directChat_def endsWith_def
      inboundBody_def extractText_def trimmed_def trim_def isWhiteSpace_def
      empty_message_def js_def)

text \<open>
  A text message without an id, delivered three times.
\<close>

theorem no_id_never_deduplicated_witness:
  "length (dispatched (snd (handleMessages exampleInbox resolves {js ''3EB0A''}
       [textMessage None, textMessage None, textMessage None]))) = 3
   \<and> fst (handleInbound exampleInbox resolves {js ''3EB0A''} (textMessage None)) = {js ''3EB0A''}"
  using no_id_never_deduplicated [of "textMessage None" exampleInbox resolves "{js ''3EB0A''}" 3]
    deliverable_textMessage
  by (simp add: textMessage_def truthy_def numeral_3_eq_3)

subsection \<open>Media failure in the auto-reply\<close>

lemma textReplies_mediaFailed:
  "textReplies (mediaFailed env msg r err) =
     (case orUndefined (reply_text r) of None \<Rightarrow> [] | Some t \<Rightarrow> [(in_chatJid msg, t)])"
  by (simp add: mediaFailed_def split: option.splits)

lemma delivered_mediaFailed:
  "delivered (mediaFailed env msg r err) =
     (case orUndefined (reply_text r) of
        None \<Rightarrow> []
      | Some t \<Rightarrow>
          if sendMessage env (in_chatJid msg) (TextContent t) = None
          then [(in_chatJid msg, TextContent t)] else [])"
  by (simp add: mediaFailed_def split: option.splits)

lemma sendReply_mediaFails:
  assumes "truthy (reply_mediaUrl r)" "mediaFails env msg r err"
  shows "sendReply env msg r = mediaFailed env msg r err
     \<or> (\<exists>media. sendReply env msg r =
           SendRejected (in_chatJid msg) (mediaPayload r media) err # mediaFailed env msg r err)"
  using assms
  by (auto simp add: sendReply_def mediaFails_def orUndefined_def split: option.splits sum.splits)

lemma textReplies_image:
  "textReplies (SendRejected jid (mediaPayload r media) err # es) = textReplies es"
  by (simp add: mediaPayload_def)

lemma handleInbound_any_handler:
  "fst (handleInbound env h known msg) = fst (handleInbound env h' known msg)
   \<and> dispatched (snd (handleInbound env h known msg))
       = dispatched (snd (handleInbound env h' known msg))"
  by (auto simp add: handleInbound_def Let_def dispatched_append split: option.splits)

lemma handleMessages_any_handler:
  "fst (handleMessages env h known ms) = fst (handleMessages env h' known ms)
   \<and> dispatched (snd (handleMessages env h known ms))
       = dispatched (snd (handleMessages env h' known ms))"
proof (induction ms arbitrary: known)
  case Nil
  show ?case by simp
next
  case (Cons m ms)
  have one: "fst (handleInbound env h known m) = fst (handleInbound env h' known m)"
      "dispatched (snd (handleInbound env h known m))
        = dispatched (snd (handleInbound env h' known m))"
    using handleInbound_any_handler [of env h known m h'] by simp_all
  show ?case
    using one Cons.IH [of "fst (handleInbound env h' known m)"]
    by (simp add: split_beta dispatched_append)
qed

lemma onUpsert_any_handler:
  "fst (onUpsert env h known u) = fst (onUpsert env h' known u)
   \<and> dispatched (snd (onUpsert env h known u)) = dispatched (snd (onUpsert env h' known u))"
  using handleMessages_any_handler [of env h known "upsert_messages u" h']
  by (simp add: onUpsert_def)

lemma handleUpserts_any_handler:
  "fst (handleUpserts env h known us) = fst (handleUpserts env h' known us)
   \<and> dispatched (snd (handleUpserts env h known us))
       = dispatched (snd (handleUpserts env h' known us))"
proof (induction us arbitrary: known)
  case Nil
  show ?case by simp
next
  case (Cons u us)
  have one: "fst (onUpsert env h known u) = fst (onUpsert env h' known u)"
      "dispatched (snd (onUpsert env h known u)) = dispatched (snd (onUpsert env h' known u))"
    using onUpsert_any_handler [of env h known u h'] by simp_all
  show ?case
    using one Cons.IH [of "fst (onUpsert env h' known u)"]
    by (simp add: split_beta dispatched_append)
qed

text \<open>
  C6. Let the reply resolver return a result with a media URL, and let the media fail
  with \<open>err\<close>: \<^verbatim>\<open>loadWebMedia\<close> rejects, or the media loads and \<^verbatim>\<open>msg.sendMedia\<close> rejects.
  Then the handler resolves (it throws nothing) and the failure is printed. If the result
  has a text, that text is sent alone to the chat of the message, and it is the one text
  the handler sends; it is all that is delivered, when the socket accepts it. If the
  result has no text, no text is sent and nothing is delivered. And the listener's loop
  goes on whatever the handler does: the messages it dispatches over any sequence of
  upserts are those it dispatches with a handler that always resolves.
\<close>

theorem media_failure_falls_back:
  "(validDate (in_timestamp msg) \<and> replyResolver env (contextOf msg) = Inr (Some r)
      \<and> truthy (reply_mediaUrl r) \<and> mediaFails env msg r err
    \<longrightarrow> snd (onMessage env msg) = None
      \<and> SaidMediaFailed err \<in> set (fst (onMessage env msg))
      \<and> (\<forall>t. reply_text r = Some t \<and> t \<noteq> [] \<longrightarrow>
            textReplies (fst (onMessage env msg)) = [(in_chatJid msg, t)]
            \<and> delivered (fst (onMessage env msg)) =
                (if sendMessage env (in_chatJid msg) (TextContent t) = None
                 then [(in_chatJid msg, TextContent t)] else []))
      \<and> (\<not> truthy (reply_text r) \<longrightarrow>
            textReplies (fst (onMessage env msg)) = []
            \<and> delivered (fst (onMessage env msg)) = []))
   \<and> dispatched (monitorWebInbox inbox (\<lambda>w. snd (onMessage env w)) upserts)
       = dispatched (monitorWebInbox inbox (\<lambda>w. None) upserts)"
proof -
  have loop: "dispatched (monitorWebInbox inbox (\<lambda>w. snd (onMessage env w)) upserts)
       = dispatched (monitorWebInbox inbox (\<lambda>w. None) upserts)"
    using handleUpserts_any_handler [of inbox "\<lambda>w. snd (onMessage env w)" "{}" upserts "\<lambda>w. None"]
    by (simp add: monitorWebInbox_def)
  have handler: "snd (onMessage env msg) = None
      \<and> SaidMediaFailed err \<in> set (fst (onMessage env msg))
      \<and> (\<forall>t. reply_text r = Some t \<and> t \<noteq> [] \<longrightarrow>
            textReplies (fst (onMessage env msg)) = [(in_chatJid msg, t)]
            \<and> delivered (fst (onMessage env msg)) =
                (if sendMessage env (in_chatJid msg) (TextContent t) = None
                 then [(in_chatJid msg, TextContent t)] else []))
      \<and> (\<not> truthy (reply_text r) \<longrightarrow>
            textReplies (fst (onMessage env msg)) = []
            \<and> delivered (fst (onMessage env msg)) = [])"
    if a: "validDate (in_timestamp msg)" "replyResolver env (contextOf msg) = Inr (Some r)"
      "truthy (reply_mediaUrl r)" "mediaFails env msg r err"
  proof -
    have run: "onMessage env msg = (PrintedInbound # sendReply env msg r, None)"
      using a by (simp add: onMessage_def)
    have logged: "SaidMediaFailed err \<in> set (mediaFailed env msg r err)"
      by (simp add: mediaFailed_def)
    from sendReply_mediaFails [OF a(3) a(4)]
    show ?thesis
    proof
      assume "sendReply env msg r = mediaFailed env msg r err"
      then show ?thesis using logged
        by (simp add: run textReplies_mediaFailed delivered_mediaFailed orUndefined_def)
    next
      assume "\<exists>media. sendReply env msg r =
           SendRejected (in_chatJid msg) (mediaPayload r media) err # mediaFailed env msg r err"
      then obtain media where "sendReply env msg r =
           SendRejected (in_chatJid msg) (mediaPayload r media) err # mediaFailed env msg r err"
        by blast
      then show ?thesis using logged
        by (simp add: run textReplies_image textReplies_mediaFailed delivered_mediaFailed
            orUndefined_def)
    qed
  qed
  show ?thesis using loop handler by blast
qed

lemma loadWebMedia_offline:
  "loadWebMedia offline (js ''https://x/y.png'') = Inl (new_Error (js ''fetch failed''))"
  by (simp add: loadWebMedia_def offline_def stripFileScheme_def startsWith_def isHttpUrl_def
      lowerAscii_def js_def)

text \<open>
  The scenario of the specification: the resolver returns the URL of an image that cannot
  be fetched, with the text hello and without a text.
\<close>

theorem media_failure_falls_back_witness:
  "onMessage (replying (mediaReply (Some (js ''hello'')))) inboundHi
      = ([PrintedInbound, SaidMediaFailed (new_Error (js ''fetch failed'')),
          Sent directChat (TextContent (js ''hello'')), SaidTextFallback, SaidAutoReplied], None)
   \<and> textReplies (fst (onMessage (replying (mediaReply None)) inboundHi)) = []
   \<and> delivered (fst (onMessage (replying (mediaReply None)) inboundHi)) = []
   \<and> snd (onMessage (replying (mediaReply None)) inboundHi) = None"
proof -
  have fails: "mediaFails (replying (mediaReply t)) inboundHi (mediaReply t)
      (new_Error (js ''fetch failed''))" for t
    by (simp add: mediaFails_def replying_def mediaReply_def loadWebMedia_offline)
  have a: "onMessage (replying (mediaReply (Some (js ''hello'')))) inboundHi
      = ([PrintedInbound, SaidMediaFailed (new_Error (js ''fetch failed'')),
          Sent directChat (TextContent (js ''hello'')), SaidTextFallback, SaidAutoReplied], None)"
    by (simp add: onMessage_def sendReply_def mediaFailed_def orUndefined_def replying_def
        mediaReply_def loadWebMedia_offline inboundHi_def validDate_def)
      (simp add: js_def)
  show ?thesis
    using a fails [of None] fails [of "Some (js ''hello'')"]
      media_failure_falls_back [of inboundHi "replying (mediaReply None)" "mediaReply None"
        "new_Error (js ''fetch failed'')"]
      media_failure_falls_back [of inboundHi "replying (mediaReply (Some (js ''hello'')))"
        "mediaReply (Some (js ''hello''))" "new_Error (js ''fetch failed'')"]
    by (simp add: replying_def inboundHi_def validDate_def mediaReply_def truthy_def js_def)
qed

end
